theory Spec2Isabelle
  imports Main "HOL-Library.AList" "HOL-Library.Sublist" "HOL-Library.Word"
begin

section \<open>Python values, dictionaries and the object store\<close>

text \<open>
  The configuration mappings of the repository are JSON-shaped Python values. A
  dictionary is an association list in insertion order; \<open>d[k] = v\<close> replaces the
  entry of an existing key in place and appends a new key at the end, which is
  what \<open>AList.update\<close> does.
\<close>

datatype pyval =
    PNone
  | PBool bool
  | PInt int
  | PStr string
  | PList "pyval list"
  | PDict "(string \<times> pyval) list"

type_synonym pydict = "(string \<times> pyval) list"

text \<open>Python truthiness (\<open>not x\<close> is \<open>\<not> truthy x\<close>).\<close>

fun truthy :: "pyval \<Rightarrow> bool" where
  "truthy PNone = False"
| "truthy (PBool b) = b"
| "truthy (PInt i) = (i \<noteq> 0)"
| "truthy (PStr s) = (s \<noteq> [])"
| "truthy (PList xs) = (xs \<noteq> [])"
| "truthy (PDict d) = (d \<noteq> [])"

definition dict_get :: "pydict \<Rightarrow> string \<Rightarrow> pyval option" where
  "dict_get d k = map_of d k"

definition dict_set :: "pydict \<Rightarrow> string \<Rightarrow> pyval \<Rightarrow> pydict" where
  "dict_set d k v = AList.update k v d"

text \<open>
  Exceptions are values. A method's outcome is \<open>Inl e\<close> when the exception \<open>e\<close>
  leaves the method and \<open>Inr v\<close> when it returns \<open>v\<close>.
\<close>

datatype exn = AttributeError | TypeError | IndexError | WaveError | EngineError

type_synonym 'a outcome = "exn + 'a"

text \<open>\<open>try: body except Exception: return d\<close>, with the state the body left behind.\<close>

definition except_Exception :: "'a \<Rightarrow> 'a outcome \<times> 's \<Rightarrow> 'a outcome \<times> 's" where
  "except_Exception d r = (case r of (Inl e, s) \<Rightarrow> (Inr d, s) | (Inr v, s) \<Rightarrow> (Inr v, s))"

text \<open>
  Dictionaries that are shared between a caller and the plugin live in a store:
  a reference is an index into the list of dictionary objects. \<open>dict.copy()\<close>
  allocates a new object.
\<close>

type_synonym ref = nat
type_synonym heap = "pydict list"

definition heap_lookup :: "heap \<Rightarrow> ref \<Rightarrow> pydict option" where
  "heap_lookup h r = (if r < length h then Some (h ! r) else None)"

definition heap_copy :: "heap \<Rightarrow> pydict \<Rightarrow> ref \<times> heap" where
  "heap_copy h d = (length h, h @ [d])"

section \<open>The environment: \<open>os.path\<close>, \<open>wave\<close> and \<open>str.upper\<close>\<close>

text \<open>
  The library functions the code calls are parameters. Text produced by the
  recogniser is a list of Unicode code points, since \<open>str.upper\<close> and indexing
  work on code points. A wave file is its header and the bytes of its data
  chunk; \<open>readframes n\<close> returns the next \<open>n * nchannels * sampwidth\<close> bytes.
\<close>

type_synonym ustr = "nat list"
type_synonym byte = "8 word"

record wave_file =
  nchannels :: nat
  sampwidth :: nat
  comptype :: string
  wave_data :: "byte list"

record py_env =
  path_exists :: "string \<Rightarrow> bool"
  path_isdir :: "string \<Rightarrow> bool"
  path_isabs :: "string \<Rightarrow> bool"
  path_join :: "string \<Rightarrow> string \<Rightarrow> string"
  getcwd :: string
  project_root :: string
  wave_open :: "string \<Rightarrow> wave_file option"
  str_upper :: "nat \<Rightarrow> ustr"

text \<open>\<open>os.path.join(base, p1, ..., pn)\<close>.\<close>

definition join_all :: "py_env \<Rightarrow> string \<Rightarrow> string list \<Rightarrow> string" where
  "join_all env base parts = foldl (path_join env) base parts"

definition backslash :: char where
  "backslash = CHR 0x5C"

text \<open>
  The Windows path literal of \<open>setup\<close>: drive \<open>C:\<close>, then the components
  below, each preceded by a backslash.
\<close>

definition hardcoded_model_path :: string where
  "hardcoded_model_path =
     ''C:'' @ concat (map ((#) backslash)
       [''Users'', ''crige'', ''models'', ''asr'', ''vosk'', ''vosk-model-small-en-us-0.15''])"

section \<open>The recogniser library\<close>

text \<open>
  \<open>vosk_lib\<close> is a module object holding the classes \<open>Model\<close> and
  \<open>KaldiRecognizer\<close>. The plugin is written against this interface, so the
  interface is a parameter: a constructor or \<open>SetWords\<close> that raises gives
  \<open>None\<close>. \<open>Result\<close> and \<open>FinalResult\<close> give the \<open>"text"\<close> entry of the decoded
  JSON object, \<open>PartialResult\<close> its \<open>"partial"\<close> entry (\<open>None\<close> when the key is
  absent), each with the recogniser's next state.
\<close>

record ('m, 'r) VoskModule =
  Model :: "string \<Rightarrow> 'm option"
  KaldiRecognizer :: "'m \<Rightarrow> pyval \<Rightarrow> 'r option"
  SetWords :: "'r \<Rightarrow> pyval \<Rightarrow> 'r option"
  AcceptWaveform :: "'r \<Rightarrow> byte list \<Rightarrow> bool \<times> 'r"
  Result :: "'r \<Rightarrow> ustr option \<times> 'r"
  PartialResult :: "'r \<Rightarrow> ustr option \<times> 'r"
  FinalResult :: "'r \<Rightarrow> ustr option \<times> 'r"
  Reset :: "'r \<Rightarrow> 'r"

text \<open>The classes that \<open>vosk_plugin.py\<close> defines itself and binds to \<open>vosk_lib\<close>.\<close>

record mock_model =
  mock_model_path :: string

record mock_recognizer =
  rec_model :: mock_model
  rec_sample_rate :: pyval
  rec_use_words :: "pyval option"

definition test_result_text :: ustr where
  "test_result_text = [0x8FD9, 0x662F, 0x4E00, 0x4E2A, 0x6D4B, 0x8BD5, 0x7ED3, 0x679C]"

definition partial_result_text :: ustr where
  "partial_result_text = [0x8FD9, 0x662F, 0x4E00, 0x4E2A, 0x90E8, 0x5206, 0x7ED3, 0x679C]"

definition final_result_text :: ustr where
  "final_result_text = [0x8FD9, 0x662F, 0x4E00, 0x4E2A, 0x6700, 0x7EC8, 0x7ED3, 0x679C]"

definition vosk_lib :: "(mock_model, mock_recognizer) VoskModule" where
  "vosk_lib =
     \<lparr> Model = (\<lambda>p. Some \<lparr> mock_model_path = p \<rparr>),
       KaldiRecognizer =
         (\<lambda>m sr. Some \<lparr> rec_model = m, rec_sample_rate = sr, rec_use_words = None \<rparr>),
       SetWords = (\<lambda>r w. Some (r\<lparr> rec_use_words := Some w \<rparr>)),
       AcceptWaveform = (\<lambda>r audio_data. (True, r)),
       Result = (\<lambda>r. (Some test_result_text, r)),
       PartialResult = (\<lambda>r. (Some partial_result_text, r)),
       FinalResult = (\<lambda>r. (Some final_result_text, r)),
       Reset = (\<lambda>r. r) \<rparr>"

section \<open>VoskPlugin\<close>

text \<open>
  The instance attributes. \<open>plugin_config\<close> is \<open>self._config\<close>: a reference to
  the dictionary object, \<open>None\<close> while the attribute does not exist
  (\<open>hasattr(self, '_config')\<close> is false). \<open>plugin_initialized\<close> is
  \<open>self._initialized\<close>.
\<close>

record ('m, 'r) VoskPlugin =
  plugin_config :: "ref option"
  plugin_initialized :: bool
  model :: "'m option"
  recognizer :: "'r option"
  sample_rate :: pyval
  use_words :: pyval
  engine_type :: string
  model_dir :: pyval

text \<open>
  Modelled from the spec: \<open>PluginBase.get_config_value(key, default)\<close>, whose
  module \<open>plugin_base.py\<close> is not among the sources. The spec gives the keys of
  the retained mapping with their defaults (\<open>sample_rate\<close>, default 16000;
  \<open>use_words\<close>, default true), so it is the lookup of \<open>key\<close> in the retained
  mapping that falls back to \<open>default\<close>.
\<close>

definition get_config_value :: "pydict \<Rightarrow> string \<Rightarrow> pyval \<Rightarrow> pyval" where
  "get_config_value d key dflt =
     (case dict_get d key of None \<Rightarrow> dflt | Some v \<Rightarrow> v)"

text \<open>The placeholder path that \<open>setup\<close> builds in mock mode when no path is configured.\<close>

definition temp_model_path :: "py_env \<Rightarrow> string" where
  "temp_model_path env =
     join_all env (getcwd env) [''models'', ''asr'', ''vosk'', ''vosk-model-small-en-us-0.15'']"

text \<open>
  Lines 175 to 242 of \<open>setup\<close>: what happens to a model path. The directory
  listing in the innermost branch only writes to the log, inside a
  \<open>try\<close>/\<open>except\<close> of its own.
\<close>

datatype path_resolution = Unchanged | Replaced string | NotFound

definition resolve_model_path :: "py_env \<Rightarrow> string \<Rightarrow> bool \<Rightarrow> path_resolution" where
  "resolve_model_path env model_path mock_mode =
     (if \<not> path_exists env model_path \<and> \<not> mock_mode then
        (if \<not> path_isabs env model_path then
           (let abs_path = path_join env (project_root env) model_path in
            if path_exists env abs_path then Replaced abs_path
            else
              (let config_path = hardcoded_model_path in
               if path_exists env config_path then Replaced config_path
               else (if \<not> mock_mode then NotFound else Unchanged)))
         else (if \<not> mock_mode then NotFound else Unchanged))
      else Unchanged)"

text \<open>
  Lines 249 to 261: \<open>vosk_lib.Model(model_path)\<close>. In mock mode a failure is
  answered with \<open>Model("mock_model_path")\<close>; if that raises too, the exception
  leaves the handler. \<open>Inr None\<close> is the \<open>return False\<close> of the handler.
\<close>

definition load_vosk_model ::
  "('m, 'r) VoskModule \<Rightarrow> string \<Rightarrow> bool \<Rightarrow> ('m option) outcome" where
  "load_vosk_model lib model_path mock_mode =
     (case Model lib model_path of
        Some m \<Rightarrow> Inr (Some m)
      | None \<Rightarrow>
          (if mock_mode then
             (case Model lib ''mock_model_path'' of
                Some m \<Rightarrow> Inr (Some m)
              | None \<Rightarrow> Inl EngineError)
           else Inr None))"

text \<open>
  Lines 265 to 285: the recogniser is created and assigned, then \<open>SetWords\<close> is
  called on it; the handler creates it once more in mock mode and returns False
  otherwise. On success the engine type is set and \<open>setup\<close> returns True.
\<close>

definition create_vosk_recognizer ::
  "('m, 'r) VoskModule \<Rightarrow> bool \<Rightarrow> 'm \<Rightarrow> ('m, 'r) VoskPlugin \<Rightarrow> bool outcome \<times> ('m, 'r) VoskPlugin" where
  "create_vosk_recognizer lib mock_mode m p =
     (let done = (\<lambda>q. (Inr True, q\<lparr> engine_type := ''vosk_small'' \<rparr>));
          handler = (\<lambda>q.
            if mock_mode then
              (case KaldiRecognizer lib m (sample_rate q) of
                 Some r \<Rightarrow> done (q\<lparr> recognizer := Some r \<rparr>)
               | None \<Rightarrow> (Inl EngineError, q))
            else (Inr False, q))
      in case KaldiRecognizer lib m (sample_rate p) of
           None \<Rightarrow> handler p
         | Some r \<Rightarrow>
             (case SetWords lib r (use_words p) of
                Some r' \<Rightarrow> done (p\<lparr> recognizer := Some r' \<rparr>)
              | None \<Rightarrow> handler (p\<lparr> recognizer := Some r \<rparr>)))"

definition load_engine ::
  "('m, 'r) VoskModule \<Rightarrow> string \<Rightarrow> bool \<Rightarrow> ('m, 'r) VoskPlugin \<Rightarrow> bool outcome \<times> ('m, 'r) VoskPlugin" where
  "load_engine lib model_path mock_mode p =
     (case load_vosk_model lib model_path mock_mode of
        Inl e \<Rightarrow> (Inl e, p)
      | Inr None \<Rightarrow> (Inr False, p)
      | Inr (Some m) \<Rightarrow> create_vosk_recognizer lib mock_mode m (p\<lparr> model := Some m \<rparr>))"

text \<open>
  The body of \<open>setup\<close>. Reading \<open>self._config\<close> raises AttributeError when the
  attribute is missing; \<open>os.path.isabs\<close> raises TypeError on a path that is not
  a string (line 171).
\<close>

definition plugin_setup_body ::
  "('m, 'r) VoskModule \<Rightarrow> py_env \<Rightarrow> heap \<Rightarrow> ('m, 'r) VoskPlugin
     \<Rightarrow> bool outcome \<times> heap \<times> ('m, 'r) VoskPlugin" where
  "plugin_setup_body lib env h p =
     (case plugin_config p of
        None \<Rightarrow> (Inl AttributeError, h, p)
      | Some c \<Rightarrow>
        (case heap_lookup h c of
           None \<Rightarrow> (Inl AttributeError, h, p)
         | Some d \<Rightarrow>
           (let model_path = get_config_value d ''path'' PNone;
                mock_mode = truthy (get_config_value d ''mock_mode'' (PBool False))
            in if \<not> truthy model_path \<and> \<not> mock_mode then (Inr False, h, p)
               else
                 (let model_path1 =
                        (if \<not> truthy model_path then PStr (temp_model_path env) else model_path);
                      d1 = (if \<not> truthy model_path then dict_set d ''path'' model_path1 else d);
                      h1 = (if \<not> truthy model_path then h[c := d1] else h);
                      p1 = p\<lparr> sample_rate := get_config_value d1 ''sample_rate'' (PInt 16000),
                              use_words := get_config_value d1 ''use_words'' (PBool True) \<rparr>
                  in case model_path1 of
                       PStr mp \<Rightarrow>
                         (case resolve_model_path env mp mock_mode of
                            NotFound \<Rightarrow> (Inr False, h1, p1)
                          | Unchanged \<Rightarrow>
                              (case load_engine lib mp mock_mode p1 of (r, p2) \<Rightarrow> (r, h1, p2))
                          | Replaced np \<Rightarrow>
                              (case load_engine lib np mock_mode p1 of
                                 (r, p2) \<Rightarrow> (r, h1[c := dict_set d1 ''path'' (PStr np)], p2)))
                     | _ \<Rightarrow> (Inl TypeError, h1, p1)))))"

definition plugin_setup ::
  "('m, 'r) VoskModule \<Rightarrow> py_env \<Rightarrow> heap \<Rightarrow> ('m, 'r) VoskPlugin
     \<Rightarrow> bool outcome \<times> heap \<times> ('m, 'r) VoskPlugin" where
  "plugin_setup lib env h p = except_Exception False (plugin_setup_body lib env h p)"

definition teardown :: "('m, 'r) VoskPlugin \<Rightarrow> bool outcome \<times> ('m, 'r) VoskPlugin" where
  "teardown p = except_Exception False (Inr True, p\<lparr> model := None, recognizer := None \<rparr>)"

text \<open>
  \<open>initialize(config)\<close>: the argument is the caller's dictionary object, and
  \<open>self._config = config\<close> binds the attribute to that same object.
\<close>

definition initialize_body ::
  "('m, 'r) VoskModule \<Rightarrow> py_env \<Rightarrow> heap \<Rightarrow> ('m, 'r) VoskPlugin \<Rightarrow> ref
     \<Rightarrow> bool outcome \<times> heap \<times> ('m, 'r) VoskPlugin" where
  "initialize_body lib env h p config =
     (case plugin_setup lib env h (p\<lparr> plugin_config := Some config \<rparr>) of
        (Inl e, h1, p1) \<Rightarrow> (Inl e, h1, p1)
      | (Inr ok, h1, p1) \<Rightarrow>
          (if \<not> ok then (Inr False, h1, p1)
           else (Inr True, h1, p1\<lparr> plugin_initialized := True \<rparr>)))"

definition initialize ::
  "('m, 'r) VoskModule \<Rightarrow> py_env \<Rightarrow> heap \<Rightarrow> ('m, 'r) VoskPlugin \<Rightarrow> ref
     \<Rightarrow> bool outcome \<times> heap \<times> ('m, 'r) VoskPlugin" where
  "initialize lib env h p config = except_Exception False (initialize_body lib env h p config)"

text \<open>
  \<open>validate_files()\<close>. The root that is validated is \<open>self.model_dir\<close>, filled
  from the \<open>path\<close> entry of the retained mapping while it is unset. A root that
  is truthy but not a string makes \<open>os.path.exists\<close> or \<open>os.path.join\<close> raise
  TypeError (or \<open>exists\<close> answer False for a number that is no open file
  descriptor); the method returns False either way.
\<close>

definition validate_files_body ::
  "py_env \<Rightarrow> heap \<Rightarrow> ('m, 'r) VoskPlugin \<Rightarrow> bool outcome \<times> ('m, 'r) VoskPlugin" where
  "validate_files_body env h p =
     (case (if \<not> truthy (model_dir p) then
              (case plugin_config p of
                 None \<Rightarrow> Inl AttributeError
               | Some c \<Rightarrow>
                   (case heap_lookup h c of
                      None \<Rightarrow> Inl AttributeError
                    | Some d \<Rightarrow> Inr (p\<lparr> model_dir := get_config_value d ''path'' PNone \<rparr>)))
            else Inr p) of
        Inl e \<Rightarrow> (Inl e, p)
      | Inr p1 \<Rightarrow>
          (if \<not> truthy (model_dir p1) then (Inr False, p1)
           else
             (case model_dir p1 of
                PStr root \<Rightarrow>
                  (if \<not> path_exists env root then (Inr False, p1)
                   else
                     (let am_dir = path_join env root ''am'' in
                      if \<not> path_exists env am_dir \<or> \<not> path_isdir env am_dir then (Inr False, p1)
                      else
                        (let final_mdl = path_join env am_dir ''final.mdl'' in
                         if \<not> path_exists env final_mdl then (Inr False, p1)
                         else (Inr True, p1))))
              | _ \<Rightarrow> (Inl TypeError, p1))))"

definition validate_files ::
  "py_env \<Rightarrow> heap \<Rightarrow> ('m, 'r) VoskPlugin \<Rightarrow> bool outcome \<times> ('m, 'r) VoskPlugin" where
  "validate_files env h p = except_Exception False (validate_files_body env h p)"

text \<open>
  \<open>load_model(model_path)\<close>. \<open>current_config\<close> is a copy of the retained
  dictionary, a new object; the new path is then written into the retained
  object itself. After a failed \<open>setup\<close> the attribute is bound to the copy.
  Without a \<open>_config\<close> attribute \<open>current_config\<close> is a new empty dictionary
  that is never used.
\<close>

definition load_model_body ::
  "('m, 'r) VoskModule \<Rightarrow> py_env \<Rightarrow> heap \<Rightarrow> ('m, 'r) VoskPlugin \<Rightarrow> string
     \<Rightarrow> bool outcome \<times> heap \<times> ('m, 'r) VoskPlugin" where
  "load_model_body lib env h p new_path =
     (case plugin_config p of
        None \<Rightarrow>
          (case teardown p of
             (t, p1) \<Rightarrow>
               (case plugin_setup lib env h p1 of
                  (Inl e, h2, p2) \<Rightarrow> (Inl e, h2, p2)
                | (Inr success, h2, p2) \<Rightarrow> (Inr success, h2, p2)))
      | Some c \<Rightarrow>
          (case heap_lookup h c of
             None \<Rightarrow> (Inl AttributeError, h, p)
           | Some d \<Rightarrow>
               (case heap_copy h d of
                  (current_config, h1) \<Rightarrow>
                    (case teardown p of
                       (t, p1) \<Rightarrow>
                         (case plugin_setup lib env (h1[c := dict_set d ''path'' (PStr new_path)]) p1 of
                            (Inl e, h3, p2) \<Rightarrow> (Inl e, h3, p2)
                          | (Inr success, h3, p2) \<Rightarrow>
                              (if \<not> success
                               then (Inr False, h3, p2\<lparr> plugin_config := Some current_config \<rparr>)
                               else (Inr True, h3, p2)))))))"

definition load_model ::
  "('m, 'r) VoskModule \<Rightarrow> py_env \<Rightarrow> heap \<Rightarrow> ('m, 'r) VoskPlugin \<Rightarrow> string
     \<Rightarrow> bool outcome \<times> heap \<times> ('m, 'r) VoskPlugin" where
  "load_model lib env h p new_path = except_Exception False (load_model_body lib env h p new_path)"

subsection \<open>\<open>transcribe_file\<close>\<close>

text \<open>
  \<open>Wave_read.readframes(n)\<close>: the next \<open>n\<close> frames of the data chunk, as
  bytes, and the reader advanced past them.
\<close>

definition readframes :: "wave_file \<Rightarrow> nat \<Rightarrow> byte list \<times> wave_file" where
  "readframes wav n =
     (let k = n * nchannels wav * sampwidth wav
      in (take k (wave_data wav), wav\<lparr> wave_data := drop k (wave_data wav) \<rparr>))"

text \<open>\<open>if "text" in result and result["text"]: results.append(result["text"])\<close>\<close>

definition append_text :: "ustr list \<Rightarrow> ustr option \<Rightarrow> ustr list" where
  "append_text results res =
     (case res of None \<Rightarrow> results | Some t \<Rightarrow> (if t \<noteq> [] then results @ [t] else results))"

text \<open>One pass through the body of the \<open>while\<close> loop after a non-empty read.\<close>

definition accept_chunk ::
  "('m, 'r) VoskModule \<Rightarrow> 'r \<times> ustr list \<Rightarrow> byte list \<Rightarrow> 'r \<times> ustr list" where
  "accept_chunk lib st data =
     (case st of
        (r, results) \<Rightarrow>
          (case AcceptWaveform lib r data of
             (accepted, r1) \<Rightarrow>
               (if accepted then
                  (case Result lib r1 of (res, r2) \<Rightarrow> (r2, append_text results res))
                else (r1, results))))"

text \<open>
  The \<open>while True\<close> loop: the recogniser with the results so far, the reader,
  and the number of \<open>readframes\<close> calls made.
\<close>

function transcribe_loop ::
  "('m, 'r) VoskModule \<Rightarrow> 'r \<times> ustr list \<Rightarrow> wave_file \<Rightarrow> nat \<Rightarrow> ('r \<times> ustr list) \<times> nat" where
  "transcribe_loop lib st wav reads =
     (if length (fst (readframes wav 4000)) = 0 then (st, Suc reads)
      else transcribe_loop lib (accept_chunk lib st (fst (readframes wav 4000)))
             (snd (readframes wav 4000)) (Suc reads))"
  by pat_completeness auto
termination
  by (relation "measure (\<lambda>(lib, st, wav, reads). length (wave_data wav))")
     (auto simp: readframes_def Let_def)

declare transcribe_loop.simps [simp del]

text \<open>\<open>" ".join(results)\<close>\<close>

fun join_space :: "ustr list \<Rightarrow> ustr" where
  "join_space [] = []"
| "join_space [x] = x"
| "join_space (x # y # ys) = x @ [of_char CHR '' ''] @ join_space (y # ys)"

definition terminal_marks :: "nat list" where
  "terminal_marks = map of_char ''.?!,;:-''"

text \<open>
  The formatting of a transcript. \<open>transcript[-1]\<close> raises IndexError on an
  empty string, which can only arise if \<open>upper\<close> returned the empty string for
  a transcript of one character.
\<close>

definition format_transcript :: "py_env \<Rightarrow> ustr \<Rightarrow> ustr outcome" where
  "format_transcript env transcript =
     (if transcript \<noteq> [] then
        (let t1 = (if length transcript > 0
                   then str_upper env (hd transcript) @ tl transcript else transcript)
         in if t1 = [] then Inl IndexError
            else if last t1 \<notin> set terminal_marks then Inr (t1 @ [of_char CHR ''.''])
            else Inr t1)
      else Inr transcript)"

text \<open>
  What \<open>transcribe_file\<close> reports through the error log when it returns None;
  \<open>Raised\<close> is the final \<open>except Exception\<close>. \<open>wave.open\<close> raises on a file that
  is not a RIFF/WAVE file the module can read.
\<close>

datatype tf_error = RecognizerNotInitialized | FileNotFound | UnsupportedFormat | Raised exn

definition transcribe_file_run ::
  "('m, 'r) VoskModule \<Rightarrow> py_env \<Rightarrow> ('m, 'r) VoskPlugin \<Rightarrow> string
     \<Rightarrow> (tf_error + ustr option) \<times> nat \<times> ('m, 'r) VoskPlugin" where
  "transcribe_file_run lib env p file_path =
     (case recognizer p of
        None \<Rightarrow> (Inl RecognizerNotInitialized, 0, p)
      | Some r \<Rightarrow>
          (if \<not> path_exists env file_path then (Inl FileNotFound, 0, p)
           else
             (case wave_open env file_path of
                None \<Rightarrow> (Inl (Raised WaveError), 0, p)
              | Some wav \<Rightarrow>
                  (if nchannels wav \<noteq> 1 \<or> sampwidth wav \<noteq> 2 \<or> comptype wav \<noteq> ''NONE''
                   then (Inl UnsupportedFormat, 0, p)
                   else
                     (case transcribe_loop lib (Reset lib r, []) wav 0 of
                        ((r1, results), reads) \<Rightarrow>
                          (case FinalResult lib r1 of
                             (final_result, r2) \<Rightarrow>
                               (let transcript = join_space (append_text results final_result);
                                    p' = p\<lparr> recognizer := Some r2 \<rparr>
                                in case format_transcript env transcript of
                                     Inl e \<Rightarrow> (Inl (Raised e), reads, p')
                                   | Inr t \<Rightarrow>
                                       (Inr (if t \<noteq> [] then Some t else None), reads, p'))))))))"

text \<open>The value the caller of \<open>transcribe_file\<close> sees, and the plugin afterwards.\<close>

definition transcribe_file ::
  "('m, 'r) VoskModule \<Rightarrow> py_env \<Rightarrow> ('m, 'r) VoskPlugin \<Rightarrow> string
     \<Rightarrow> ustr option \<times> ('m, 'r) VoskPlugin" where
  "transcribe_file lib env p file_path =
     (case transcribe_file_run lib env p file_path of
        (Inl e, reads, p') \<Rightarrow> (None, p')
      | (Inr t, reads, p') \<Rightarrow> (t, p'))"

section \<open>ConfigManager\<close>

text \<open>
  The configuration is made of dictionary objects that \<open>set_config\<close> writes in
  place, and one object may be stored under several keys: a value passed to
  \<open>set_config\<close> can be a dictionary that is already part of the configuration,
  the root included (the property \<open>config\<close> hands the root out). So the
  dictionaries of a manager live in a store of their own, a dictionary value is
  a reference into it, and \<open>self._config\<close> is a value. The other values are
  never changed by the two operations. A reference beyond the store denotes no
  object and counts as a value that is no dictionary. Keys are strings.
\<close>

datatype cfgval =
    CNone
  | CBool bool
  | CInt int
  | CStr string
  | CList "cfgval list"
  | CDict ref

type_synonym cfg_dict = "(string \<times> cfgval) list"

record ConfigManager =
  cm_objects :: "cfg_dict list"
  cm_config :: cfgval

text \<open>\<open>isinstance(v, dict)\<close>: the dictionary object that \<open>v\<close> is, if it is one.\<close>

fun dict_ref :: "cfg_dict list \<Rightarrow> cfgval \<Rightarrow> ref option" where
  "dict_ref objs (CDict r) = (if r < length objs then Some r else None)"
| "dict_ref objs v = None"

text \<open>\<open>key.split('.')\<close>\<close>

fun split_dot :: "string \<Rightarrow> string list" where
  "split_dot [] = [[]]"
| "split_dot (c # cs) =
     (if c = CHR ''.'' then [] # split_dot cs
      else (case split_dot cs of [] \<Rightarrow> [[c]] | w # ws \<Rightarrow> (c # w) # ws))"

text \<open>A single key that contains a dot is split; both operations do this first.\<close>

definition dotted_keys :: "string list \<Rightarrow> string list" where
  "dotted_keys keys =
     (if length keys = 1 \<and> CHR ''.'' \<in> set (hd keys) then split_dot (hd keys) else keys)"

text \<open>The \<open>for\<close> loop of \<open>get_config\<close>.\<close>

fun lookup_path :: "cfg_dict list \<Rightarrow> cfgval \<Rightarrow> string list \<Rightarrow> cfgval \<Rightarrow> cfgval" where
  "lookup_path objs v [] dflt = v"
| "lookup_path objs v (key # keys) dflt =
     (case dict_ref objs v of
        None \<Rightarrow> dflt
      | Some r \<Rightarrow>
          (case map_of (objs ! r) key of
             None \<Rightarrow> dflt
           | Some v' \<Rightarrow> lookup_path objs v' keys dflt))"

definition get_config :: "ConfigManager \<Rightarrow> string list \<Rightarrow> cfgval \<Rightarrow> cfgval" where
  "get_config s keys dflt =
     (if keys = [] then dflt
      else lookup_path (cm_objects s) (cm_config s) (dotted_keys keys) dflt)"

text \<open>
  The loop of \<open>set_config\<close> over \<open>keys[:-1]\<close>, from the dictionary object \<open>r\<close>.
  \<open>sub_dict\<close> is the entry of \<open>key\<close> when the key is present and its value is a
  dictionary; otherwise \<open>config[key] = {}\<close> creates a dictionary object and
  stores it under the key (\<open>new_dict_at\<close>). The walk goes on in that entry. The
  result is the store and the dictionary the loop ends in.
\<close>

definition sub_dict :: "cfg_dict list \<Rightarrow> ref \<Rightarrow> string \<Rightarrow> ref option" where
  "sub_dict objs r key =
     (case map_of (objs ! r) key of None \<Rightarrow> None | Some v \<Rightarrow> dict_ref objs v)"

definition new_dict_at :: "cfg_dict list \<Rightarrow> ref \<Rightarrow> string \<Rightarrow> cfg_dict list" where
  "new_dict_at objs r key =
     (objs @ [[]])[r := AList.update key (CDict (length objs)) (objs ! r)]"

fun descend :: "cfg_dict list \<Rightarrow> ref \<Rightarrow> string list \<Rightarrow> cfg_dict list \<times> ref" where
  "descend objs r [] = (objs, r)"
| "descend objs r (key # keys) =
     (case sub_dict objs r key of
        Some r' \<Rightarrow> descend objs r' keys
      | None \<Rightarrow> descend (new_dict_at objs r key) (length objs) keys)"

text \<open>\<open>config[keys[-1]] = value\<close>\<close>

definition store_entry :: "cfg_dict list \<Rightarrow> ref \<Rightarrow> string \<Rightarrow> cfgval \<Rightarrow> cfg_dict list" where
  "store_entry objs r key v = objs[r := AList.update key v (objs ! r)]"

text \<open>\<open>if self._config is None: self._config = {}\<close>\<close>

definition ensure_root :: "ConfigManager \<Rightarrow> ConfigManager" where
  "ensure_root s =
     (if cm_config s = CNone
      then s\<lparr> cm_objects := cm_objects s @ [[]], cm_config := CDict (length (cm_objects s)) \<rparr>
      else s)"

text \<open>
  \<open>set_config(value, *keys)\<close>. When the root is no dictionary, the loop starts
  from a new dictionary that nothing refers to, so with two keys or more the
  writes go into objects outside the configuration and the root stays; with one
  key the loop does not run and the root is reset to a new dictionary that
  receives the value.
\<close>

definition set_config :: "ConfigManager \<Rightarrow> cfgval \<Rightarrow> string list \<Rightarrow> bool \<times> ConfigManager" where
  "set_config s v keys =
     (if keys = [] then (False, s)
      else
        (let s1 = ensure_root s;
             ks = dotted_keys keys;
             objs = cm_objects s1
         in case dict_ref objs (cm_config s1) of
              Some r \<Rightarrow>
                (case descend objs r (butlast ks) of
                   (objs2, r2) \<Rightarrow>
                     (True, s1\<lparr> cm_objects := store_entry objs2 r2 (last ks) v \<rparr>))
            | None \<Rightarrow>
                (if butlast ks = []
                 then (True, s1\<lparr> cm_objects := store_entry (objs @ [[]]) (length objs) (last ks) v,
                                 cm_config := CDict (length objs) \<rparr>)
                 else
                   (case descend (objs @ [[]]) (length objs) (butlast ks) of
                      (objs2, r2) \<Rightarrow>
                        (True, s1\<lparr> cm_objects := store_entry objs2 r2 (last ks) v \<rparr>)))))"

text \<open>
  The dictionary objects that the loop of \<open>set_config\<close> passes through, the one
  it ends in last. The final assignment overwrites the path of its own call
  when the entry it writes, the last key in the last of these dictionaries, is
  an entry through which an earlier key led.
\<close>

fun trail :: "cfg_dict list \<Rightarrow> ref \<Rightarrow> string list \<Rightarrow> ref list" where
  "trail objs r [] = [r]"
| "trail objs r (key # keys) =
     r # (case sub_dict objs r key of
            Some r' \<Rightarrow> trail objs r' keys
          | None \<Rightarrow> trail (new_dict_at objs r key) (length objs) keys)"

definition overwrites_own_path :: "ConfigManager \<Rightarrow> string list \<Rightarrow> bool" where
  "overwrites_own_path s keys =
     (case dict_ref (cm_objects (ensure_root s)) (cm_config (ensure_root s)) of
        None \<Rightarrow> False
      | Some r \<Rightarrow>
          (let ks = dotted_keys keys;
               t = trail (cm_objects (ensure_root s)) r (butlast ks)
           in (last t, last ks) \<in> set (zip t (butlast ks))))"

text \<open>\<open>validate_model_files(model_path, model_type)\<close> with its two loops.\<close>

fun sherpa_files_present :: "py_env \<Rightarrow> string \<Rightarrow> string list \<Rightarrow> bool" where
  "sherpa_files_present env root [] = True"
| "sherpa_files_present env root (file # files) =
     (if \<not> path_exists env (path_join env root file) then False
      else sherpa_files_present env root files)"

fun vosk_dirs_present :: "py_env \<Rightarrow> string \<Rightarrow> string list \<Rightarrow> bool" where
  "vosk_dirs_present env root [] = True"
| "vosk_dirs_present env root (dir_name # dirs) =
     (if \<not> path_exists env (path_join env root dir_name)
         \<or> \<not> path_isdir env (path_join env root dir_name) then False
      else vosk_dirs_present env root dirs)"

definition required_files :: "string list" where
  "required_files = [''encoder.onnx'', ''decoder.onnx'', ''joiner.onnx'', ''tokens.txt'']"

definition required_dirs :: "string list" where
  "required_dirs = [''am'', ''conf'']"

definition validate_model_files :: "py_env \<Rightarrow> string \<Rightarrow> string \<Rightarrow> bool" where
  "validate_model_files env root model_type =
     (if \<not> path_exists env root then False
      else if prefix ''sherpa'' model_type then sherpa_files_present env root required_files
      else if model_type = ''vosk'' then vosk_dirs_present env root required_dirs
      else True)"

section \<open>Concrete environments\<close>

text \<open>
  \<open>posixpath.join\<close> for two arguments and \<open>posixpath.isabs\<close>; \<open>str.upper\<close> on
  the ASCII letters. They instantiate the parameters where a statement is
  evaluated on a concrete input.
\<close>

definition posix_join :: "string \<Rightarrow> string \<Rightarrow> string" where
  "posix_join a b =
     (if b \<noteq> [] \<and> hd b = CHR ''/'' then b
      else if a = [] \<or> last a = CHR ''/'' then a @ b
      else a @ ''/'' @ b)"

definition posix_isabs :: "string \<Rightarrow> bool" where
  "posix_isabs s = (s \<noteq> [] \<and> hd s = CHR ''/'')"

definition ascii_upper :: "nat \<Rightarrow> ustr" where
  "ascii_upper c = (if 97 \<le> c \<and> c \<le> 122 then [c - 32] else [c])"

text \<open>
  A file system given by the absolute paths of its files, of its directories
  and of its wave files. The process runs in \<open>/work\<close>, against which a relative
  path is resolved; the project root is \<open>/app\<close>.
\<close>

definition posix_abspath :: "string \<Rightarrow> string" where
  "posix_abspath p = (if posix_isabs p then p else posix_join ''/work'' p)"

definition posix_env :: "string list \<Rightarrow> string list \<Rightarrow> (string \<times> wave_file) list \<Rightarrow> py_env" where
  "posix_env files dirs waves =
     \<lparr> path_exists = (\<lambda>p. posix_abspath p \<in> set files \<or> posix_abspath p \<in> set dirs),
       path_isdir = (\<lambda>p. posix_abspath p \<in> set dirs),
       path_isabs = posix_isabs,
       path_join = posix_join,
       getcwd = ''/work'',
       project_root = ''/app'',
       wave_open = (\<lambda>p. map_of waves (posix_abspath p)),
       str_upper = ascii_upper \<rparr>"

text \<open>The attributes after \<open>VoskPlugin.__init__\<close>, before any configuration is bound.\<close>

definition new_plugin :: "(mock_model, mock_recognizer) VoskPlugin" where
  "new_plugin =
     \<lparr> plugin_config = None, plugin_initialized = False, model = None, recognizer = None,
       sample_rate = PInt 16000, use_words = PBool True, engine_type = ''vosk_small'',
       model_dir = PNone \<rparr>"

text \<open>Model roots of the two engine families, complete and incomplete.\<close>

definition sherpa_env :: py_env where
  "sherpa_env =
     posix_env [''/m/encoder.onnx'', ''/m/decoder.onnx'', ''/m/joiner.onnx'', ''/m/tokens.txt'']
       [''/m''] []"

definition sherpa_incomplete_env :: py_env where
  "sherpa_incomplete_env =
     posix_env [''/m/encoder.onnx'', ''/m/decoder.onnx'', ''/m/tokens.txt''] [''/m''] []"

definition vosk_model_env :: py_env where
  "vosk_model_env = posix_env [''/m/am/final.mdl''] [''/m'', ''/m/am'', ''/k''] []"

text \<open>
  A project whose model directory exists under the project root only, and a
  file system with no model anywhere.
\<close>

definition guess_env :: py_env where
  "guess_env = posix_env [] [''/app/models/vosk''] []"

definition empty_env :: py_env where
  "empty_env = posix_env [] [] []"

definition relative_config :: pydict where
  "relative_config = [(''path'', PStr ''models/vosk'')]"

definition mock_config :: pydict where
  "mock_config = [(''mock_mode'', PBool True)]"

text \<open>A recogniser library whose \<open>Model\<close> constructor always raises.\<close>

definition broken_lib :: "(mock_model, mock_recognizer) VoskModule" where
  "broken_lib = vosk_lib\<lparr> Model := (\<lambda>p. None) \<rparr>"

text \<open>
  The fixed-size frames of a byte sequence, as the specification words the
  streaming: consecutive pieces of \<open>n\<close> bytes, the last one possibly shorter.
\<close>

function frames_of :: "nat \<Rightarrow> byte list \<Rightarrow> byte list list" where
  "frames_of n bytes =
     (let piece = take n bytes
      in if piece = [] then [] else piece # frames_of n (drop n bytes))"
  by pat_completeness auto
termination
  by (relation "measure (\<lambda>(n, bytes). length bytes)") auto

declare frames_of.simps [simp del]

text \<open>Two wave files: two mono 16-bit samples, and a stereo file.\<close>

definition mono_wave :: wave_file where
  "mono_wave = \<lparr> nchannels = 1, sampwidth = 2, comptype = ''NONE'', wave_data = [1, 0, 2, 0] \<rparr>"

definition stereo_wave :: wave_file where
  "stereo_wave = \<lparr> nchannels = 2, sampwidth = 2, comptype = ''NONE'', wave_data = [1, 0, 2, 0] \<rparr>"

definition audio_env :: py_env where
  "audio_env =
     posix_env [''/a.wav'', ''/s.wav'', ''/notes.txt''] []
       [(''/a.wav'', mono_wave), (''/s.wav'', stereo_wave)]"

text \<open>The plugin after a successful \<open>initialize\<close> with the model at \<open>/m\<close>.\<close>

definition ready_plugin :: "(mock_model, mock_recognizer) VoskPlugin" where
  "ready_plugin =
     new_plugin\<lparr> plugin_config := Some 0, plugin_initialized := True,
       model := Some \<lparr> mock_model_path = ''/m'' \<rparr>,
       recognizer := Some \<lparr> rec_model = \<lparr> mock_model_path = ''/m'' \<rparr>,
                             rec_sample_rate = PInt 16000,
                             rec_use_words = Some (PBool True) \<rparr> \<rparr>"

text \<open>
  A recogniser library whose \<open>Model\<close> constructor raises on every path but the
  placeholder \<open>mock_model_path\<close>, and a configuration in mock mode for the
  model at \<open>/m\<close>.
\<close>

definition fallback_lib :: "(mock_model, mock_recognizer) VoskModule" where
  "fallback_lib =
     vosk_lib\<lparr> Model := (\<lambda>p. if p = ''mock_model_path''
                               then Some \<lparr> mock_model_path = p \<rparr> else None) \<rparr>"

definition mock_model_config :: pydict where
  "mock_model_config = [(''path'', PStr ''/m''), (''mock_mode'', PBool True)]"

text \<open>
  The plugin whose configuration is the first object of the store, after a
  successful \<open>setup\<close> with the model at \<open>root\<close>, with \<open>md\<close> in \<open>self.model_dir\<close>.
\<close>

definition loaded_plugin :: "string \<Rightarrow> pyval \<Rightarrow> (mock_model, mock_recognizer) VoskPlugin" where
  "loaded_plugin root md =
     new_plugin\<lparr> plugin_config := Some 0, plugin_initialized := True,
       model := Some \<lparr> mock_model_path = root \<rparr>,
       recognizer := Some \<lparr> rec_model = \<lparr> mock_model_path = root \<rparr>,
                             rec_sample_rate = PInt 16000,
                             rec_use_words = Some (PBool True) \<rparr>,
       model_dir := md \<rparr>"

text \<open>
  A manager right after \<open>__init__\<close>, whose configuration is an empty dictionary,
  and one that holds \<open>{"app": {"name": "x"}}\<close>.
\<close>

definition empty_manager :: ConfigManager where
  "empty_manager = \<lparr> cm_objects = [[]], cm_config = CDict 0 \<rparr>"

definition app_manager :: ConfigManager where
  "app_manager =
     \<lparr> cm_objects = [[(''app'', CDict 1)], [(''name'', CStr ''x'')]], cm_config = CDict 0 \<rparr>"

section \<open>Dictionary and store lemmas\<close>

lemmas posix_defs = posix_env_def posix_abspath_def posix_isabs_def posix_join_def

lemma dict_get_set_same: "dict_get (dict_set d k v) k = Some v"
  by (simp add: dict_get_def dict_set_def update_conv')

lemma dict_get_set_other: "k' \<noteq> k \<Longrightarrow> dict_get (dict_set d k v) k' = dict_get d k'"
  by (simp add: dict_get_def dict_set_def update_conv')

section \<open>ConfigManager: writing a value and reading it back\<close>

lemma dotted_keys_nonempty: "keys \<noteq> [] \<Longrightarrow> dotted_keys keys \<noteq> []"
  by (cases "hd keys") (auto simp: dotted_keys_def split: list.splits)

lemma dict_ref_Some: "dict_ref objs v = Some r \<longleftrightarrow> v = CDict r \<and> r < length objs"
  by (cases v) auto

lemma sub_dict_bound: "sub_dict objs r key = Some r' \<Longrightarrow> r' < length objs"
  by (auto simp: sub_dict_def dict_ref_Some split: option.splits)

lemma sub_dict_new:
  "r < length objs \<Longrightarrow> sub_dict (new_dict_at objs r key) r key = Some (length objs)"
  by (simp add: sub_dict_def new_dict_at_def update_conv')

lemma length_new_dict_at: "length (new_dict_at objs r key) = Suc (length objs)"
  by (simp add: new_dict_at_def)

lemma sub_dict_new_other:
  assumes "a < length objs" "sub_dict objs a b = Some c" "sub_dict objs r key = None"
  shows "sub_dict (new_dict_at objs r key) a b = Some c"
proof (cases "a = r")
  case True
  with assms have "b \<noteq> key" by auto
  with assms True show ?thesis
    by (auto simp: sub_dict_def new_dict_at_def update_conv' dict_ref_Some nth_append
             split: option.splits)
next
  case False
  with assms show ?thesis
    by (auto simp: sub_dict_def new_dict_at_def dict_ref_Some nth_append split: option.splits)
qed

lemma descend_bounds:
  "r < length objs \<Longrightarrow>
   length objs \<le> length (fst (descend objs r ks)) \<and>
   snd (descend objs r ks) < length (fst (descend objs r ks))"
proof (induction ks arbitrary: objs r)
  case Nil
  then show ?case by simp
next
  case (Cons k ks)
  show ?case
  proof (cases "sub_dict objs r k")
    case None
    have "length objs < length (new_dict_at objs r k)" by (simp add: length_new_dict_at)
    from Cons.IH[OF this] None show ?thesis by (simp add: length_new_dict_at)
  next
    case (Some r')
    from Cons.IH[OF sub_dict_bound[OF Some]] Some show ?thesis by simp
  qed
qed

lemma descend_last_trail: "snd (descend objs r ks) = last (trail objs r ks)"
proof (induction ks arbitrary: objs r)
  case Nil
  then show ?case by simp
next
  case (Cons k ks)
  have ne: "\<And>o' q. trail o' q ks \<noteq> []" by (cases ks) auto
  show ?case by (cases "sub_dict objs r k") (simp_all add: Cons.IH ne)
qed

lemma length_trail: "length (trail objs r ks) = Suc (length ks)"
  by (induction ks arbitrary: objs r) (auto split: option.splits)

lemma descend_preserves:
  "r < length objs \<Longrightarrow> a < length objs \<Longrightarrow> sub_dict objs a b = Some c
   \<Longrightarrow> sub_dict (fst (descend objs r ks)) a b = Some c"
proof (induction ks arbitrary: objs r)
  case Nil
  then show ?case by simp
next
  case (Cons k ks)
  show ?case
  proof (cases "sub_dict objs r k")
    case None
    let ?o = "new_dict_at objs r k"
    have 1: "length objs < length ?o" by (simp add: length_new_dict_at)
    have 2: "a < length ?o" using Cons.prems(2) by (simp add: length_new_dict_at)
    have 3: "sub_dict ?o a b = Some c"
      by (rule sub_dict_new_other[OF Cons.prems(2,3) None])
    from Cons.IH[OF 1 2 3] None show ?thesis by simp
  next
    case (Some r')
    from Cons.IH[OF sub_dict_bound[OF Some] Cons.prems(2,3)] Some show ?thesis by simp
  qed
qed

lemma sub_dict_store_entry:
  assumes "sub_dict objs a b = Some c" "(r, key) \<noteq> (a, b)"
  shows "sub_dict (store_entry objs r key v) a b = Some c"
proof -
  have "map_of (store_entry objs r key v ! a) b = map_of (objs ! a) b"
    using assms(2)
    by (cases "r < length objs"; cases "a = r")
       (auto simp: store_entry_def update_conv' list_update_beyond)
  with assms(1) show ?thesis
    by (auto simp: sub_dict_def store_entry_def dict_ref_Some split: option.splits)
qed

lemma lookup_path_step:
  assumes "r < length objs" "sub_dict objs r key = Some r'"
  shows "lookup_path objs (CDict r) (key # keys) dflt = lookup_path objs (CDict r') keys dflt"
  using assms by (auto simp: sub_dict_def dict_ref_Some split: option.splits)

lemma lookup_after_descend:
  assumes "r < length objs"
    and "(last (trail objs r ks), kl) \<notin> set (zip (trail objs r ks) ks)"
  shows "lookup_path (store_entry (fst (descend objs r ks)) (snd (descend objs r ks)) kl v)
           (CDict r) (ks @ [kl]) dflt = v"
  using assms
proof (induction ks arbitrary: objs r)
  case Nil
  then show ?case by (simp add: store_entry_def update_conv')
next
  case (Cons k ks)
  define objs' where "objs' = (case sub_dict objs r k of Some x \<Rightarrow> objs | None \<Rightarrow> new_dict_at objs r k)"
  define r' where "r' = (case sub_dict objs r k of Some x \<Rightarrow> x | None \<Rightarrow> length objs)"
  have d: "descend objs r (k # ks) = descend objs' r' ks"
    and t: "trail objs r (k # ks) = r # trail objs' r' ks"
    by (auto simp: objs'_def r'_def split: option.splits)
  have r': "r' < length objs'"
    by (auto simp: objs'_def r'_def length_new_dict_at sub_dict_bound split: option.splits)
  have r: "r < length objs'"
    using Cons.prems(1) by (auto simp: objs'_def length_new_dict_at split: option.splits)
  have link: "sub_dict objs' r k = Some r'"
    using Cons.prems(1) by (auto simp: objs'_def r'_def sub_dict_new split: option.splits)
  have ne: "trail objs' r' ks \<noteq> []" by (cases ks) auto
  let ?o2 = "fst (descend objs' r' ks)" and ?rm = "snd (descend objs' r' ks)"
  have "(last (r # trail objs' r' ks), kl) \<notin> set (zip (r # trail objs' r' ks) (k # ks))"
    using Cons.prems(2) unfolding t .
  then have distinct_entry: "(last (trail objs' r' ks), kl) \<noteq> (r, k)"
    and rest: "(last (trail objs' r' ks), kl) \<notin> set (zip (trail objs' r' ks) ks)"
    by (auto simp: ne)
  have rm: "?rm = last (trail objs' r' ks)" by (rule descend_last_trail)
  have "sub_dict ?o2 r k = Some r'" by (rule descend_preserves[OF r' r link])
  then have link3: "sub_dict (store_entry ?o2 ?rm kl v) r k = Some r'"
    using distinct_entry by (intro sub_dict_store_entry) (auto simp: rm)
  have len: "r < length (store_entry ?o2 ?rm kl v)"
    using descend_bounds[OF r', of ks] r by (simp add: store_entry_def)
  have "lookup_path (store_entry ?o2 ?rm kl v) (CDict r) ((k # ks) @ [kl]) dflt
      = lookup_path (store_entry ?o2 ?rm kl v) (CDict r') (ks @ [kl]) dflt"
    using lookup_path_step[OF len link3] by simp
  also have "\<dots> = v" by (rule Cons.IH[OF r' rest])
  finally show ?case unfolding d .
qed

text \<open>
  C10, as stated, fails: on a new manager, \<open>set_config(cm.config, 'a')\<close> stores
  the root dictionary under its own key \<open>a\<close>; then \<open>set_config(5, 'a', 'a')\<close>
  follows \<open>a\<close> back to the root, writes 5 over that very entry and returns
  True, and \<open>get_config('a', 'a')\<close> finds 5 under the first \<open>a\<close>, which is no
  dictionary, and returns the default.
\<close>

theorem set_config_overwrites_own_path_counterexample:
  "set_config empty_manager (cm_config empty_manager) [''a'']
     = (True, \<lparr> cm_objects = [[(''a'', CDict 0)]], cm_config = CDict 0 \<rparr>) \<and>
   set_config \<lparr> cm_objects = [[(''a'', CDict 0)]], cm_config = CDict 0 \<rparr> (CInt 5) [''a'', ''a'']
     = (True, \<lparr> cm_objects = [[(''a'', CInt 5)]], cm_config = CDict 0 \<rparr>) \<and>
   get_config \<lparr> cm_objects = [[(''a'', CInt 5)]], cm_config = CDict 0 \<rparr> [''a'', ''a''] CNone = CNone \<and>
   get_config \<lparr> cm_objects = [[(''a'', CInt 5)]], cm_config = CDict 0 \<rparr> [''a'', ''a''] CNone \<noteq> CInt 5"
  by (simp add: set_config_def get_config_def ensure_root_def empty_manager_def dotted_keys_def
        sub_dict_def store_entry_def new_dict_at_def)

lemma ensure_root_dict:
  assumes "cm_config s = CNone \<or> dict_ref (cm_objects s) (cm_config s) \<noteq> None"
  shows "\<exists>r. dict_ref (cm_objects (ensure_root s)) (cm_config (ensure_root s)) = Some r"
  using assms by (auto simp: ensure_root_def)

text \<open>
  C10, amended: for every ConfigManager state whose root configuration is None
  or a dictionary and every non-empty sequence of keys such that the final
  assignment of \<open>set_config\<close> does not overwrite an entry through which the
  earlier keys of the same call lead: if \<open>set_config(value, *keys)\<close> returns
  True, then \<open>get_config(*keys)\<close> right after it returns that value, whatever
  the default. Both operations split a single dotted key with the same
  function \<open>dotted_keys\<close>. The condition on the path holds whenever the keys are
  pairwise distinct, whenever the dictionaries along the path are pairwise
  distinct objects, and whenever the configuration was still None (the three
  lemmas after the theorem).
\<close>

theorem set_config_then_get_config:
  assumes root: "cm_config s = CNone \<or> dict_ref (cm_objects s) (cm_config s) \<noteq> None"
      and path: "\<not> overwrites_own_path s keys"
      and set: "set_config s v keys = (True, s')"
  shows "get_config s' keys dflt = v"
proof -
  from set have ne: "keys \<noteq> []" by (auto simp: set_config_def)
  then have dne: "dotted_keys keys \<noteq> []" by (rule dotted_keys_nonempty)
  let ?s1 = "ensure_root s" and ?ks = "butlast (dotted_keys keys)" and ?kl = "last (dotted_keys keys)"
  from ensure_root_dict[OF root] obtain r
    where r: "dict_ref (cm_objects ?s1) (cm_config ?s1) = Some r" by blast
  then have rc: "cm_config ?s1 = CDict r" and rb: "r < length (cm_objects ?s1)"
    by (simp_all add: dict_ref_Some)
  let ?d = "descend (cm_objects ?s1) r ?ks"
  from set ne r have s': "s' = ?s1\<lparr> cm_objects := store_entry (fst ?d) (snd ?d) ?kl v \<rparr>"
    by (auto simp: set_config_def Let_def split_beta)
  from path r have free:
    "(last (trail (cm_objects ?s1) r ?ks), ?kl) \<notin> set (zip (trail (cm_objects ?s1) r ?ks) ?ks)"
    by (simp add: overwrites_own_path_def Let_def)
  have "lookup_path (store_entry (fst ?d) (snd ?d) ?kl v) (CDict r) (?ks @ [?kl]) dflt = v"
    by (rule lookup_after_descend[OF rb free])
  with dne have "lookup_path (store_entry (fst ?d) (snd ?d) ?kl v) (CDict r) (dotted_keys keys) dflt = v"
    by simp
  with ne rc show ?thesis by (simp add: get_config_def s')
qed

text \<open>Pairwise distinct keys never overwrite their own path.\<close>

lemma distinct_keys_keep_path:
  assumes "distinct (dotted_keys keys)"
  shows "\<not> overwrites_own_path s keys"
proof (cases "dotted_keys keys = []")
  case True
  then show ?thesis by (auto simp: overwrites_own_path_def Let_def split: option.splits)
next
  case False
  then have "dotted_keys keys = butlast (dotted_keys keys) @ [last (dotted_keys keys)]" by simp
  with assms have "last (dotted_keys keys) \<notin> set (butlast (dotted_keys keys))"
    by (metis distinct_append distinct.simps(2) disjoint_iff list.set_intros(1))
  then show ?thesis
    by (auto simp: overwrites_own_path_def Let_def split: option.splits dest: set_zip_rightD)
qed

theorem set_config_then_get_config_witness:
  "dict_ref (cm_objects app_manager) (cm_config app_manager) \<noteq> None \<and>
   \<not> overwrites_own_path app_manager [''app.name''] \<and>
   set_config app_manager (CStr ''y'') [''app.name'']
     = (True, \<lparr> cm_objects = [[(''app'', CDict 1)], [(''name'', CStr ''y'')]], cm_config = CDict 0 \<rparr>) \<and>
   get_config \<lparr> cm_objects = [[(''app'', CDict 1)], [(''name'', CStr ''y'')]], cm_config = CDict 0 \<rparr>
       [''app.name''] CNone = CStr ''y'' \<and>
   \<not> overwrites_own_path empty_manager [''a'', ''a''] \<and>
   set_config empty_manager (CInt 5) [''a'', ''a'']
     = (True, \<lparr> cm_objects = [[(''a'', CDict 1)], [(''a'', CInt 5)]], cm_config = CDict 0 \<rparr>) \<and>
   get_config \<lparr> cm_objects = [[(''a'', CDict 1)], [(''a'', CInt 5)]], cm_config = CDict 0 \<rparr>
       [''a'', ''a''] CNone = CInt 5"
proof -
  have a0: "dict_ref (cm_objects app_manager) (cm_config app_manager) \<noteq> None"
    by (simp add: app_manager_def)
  then have a: "cm_config app_manager = CNone \<or> dict_ref (cm_objects app_manager) (cm_config app_manager) \<noteq> None"
    by (rule disjI2)
  have b: "\<not> overwrites_own_path app_manager [''app.name'']"
    by (simp add: overwrites_own_path_def ensure_root_def app_manager_def dotted_keys_def
          sub_dict_def Let_def)
  have c: "set_config app_manager (CStr ''y'') [''app.name'']
     = (True, \<lparr> cm_objects = [[(''app'', CDict 1)], [(''name'', CStr ''y'')]], cm_config = CDict 0 \<rparr>)"
    by (simp add: set_config_def ensure_root_def app_manager_def dotted_keys_def
          sub_dict_def store_entry_def)
  have a': "cm_config empty_manager = CNone \<or> dict_ref (cm_objects empty_manager) (cm_config empty_manager) \<noteq> None"
    by (simp add: empty_manager_def)
  have b': "\<not> overwrites_own_path empty_manager [''a'', ''a'']"
    by (simp add: overwrites_own_path_def ensure_root_def empty_manager_def dotted_keys_def
          sub_dict_def new_dict_at_def Let_def)
  have c': "set_config empty_manager (CInt 5) [''a'', ''a'']
     = (True, \<lparr> cm_objects = [[(''a'', CDict 1)], [(''a'', CInt 5)]], cm_config = CDict 0 \<rparr>)"
    by (simp add: set_config_def ensure_root_def empty_manager_def dotted_keys_def
          sub_dict_def store_entry_def new_dict_at_def)
  from set_config_then_get_config[OF a b c, of CNone]
    set_config_then_get_config[OF a' b' c', of CNone] a0 b c b' c'
  show ?thesis by simp
qed

lemma last_not_in_zip:
  assumes "distinct t" "length t = Suc (length ks)"
  shows "(last t, kl) \<notin> set (zip t ks)"
proof
  assume "(last t, kl) \<in> set (zip t ks)"
  from assms(2) have ne: "t \<noteq> []" by auto
  then have t: "t = butlast t @ [last t]" by simp
  from assms(2) have "zip t ks = zip (butlast t) ks"
    by (subst t) (simp add: zip_append1)
  with \<open>(last t, kl) \<in> set (zip t ks)\<close> have "last t \<in> set (butlast t)"
    by (auto dest: set_zip_leftD)
  with assms(1) t show False by (metis distinct_append disjoint_iff list.set_intros(1) distinct.simps(2))
qed

text \<open>Dictionaries that are pairwise distinct objects along the path are never overwritten.\<close>

lemma distinct_trail_keeps_path:
  assumes "\<And>r. dict_ref (cm_objects (ensure_root s)) (cm_config (ensure_root s)) = Some r
             \<Longrightarrow> distinct (trail (cm_objects (ensure_root s)) r (butlast (dotted_keys keys)))"
  shows "\<not> overwrites_own_path s keys"
  using assms
  by (auto simp: overwrites_own_path_def Let_def split: option.splits
           dest!: last_not_in_zip[OF _ length_trail, THEN notE, rotated])

lemma fresh_trail:
  "r < length objs \<Longrightarrow> objs ! r = [] \<Longrightarrow>
   distinct (trail objs r ks) \<and> (\<forall>x \<in> set (trail objs r ks). x = r \<or> length objs \<le> x)"
proof (induction ks arbitrary: objs r)
  case Nil
  then show ?case by simp
next
  case (Cons k ks)
  let ?o = "new_dict_at objs r k"
  from Cons.prems have none: "sub_dict objs r k = None" by (simp add: sub_dict_def)
  have 1: "length objs < length ?o" by (simp add: length_new_dict_at)
  have 2: "?o ! length objs = []" using Cons.prems(1) by (simp add: new_dict_at_def nth_append)
  from Cons.IH[OF 1 2]
  have d: "distinct (trail ?o (length objs) ks)"
    and b: "\<forall>x \<in> set (trail ?o (length objs) ks). length objs \<le> x"
    by (auto simp: length_new_dict_at)
  from b Cons.prems(1) have "r \<notin> set (trail ?o (length objs) ks)" by auto
  with d b none show ?case by simp
qed

text \<open>A manager whose configuration is still None never overwrites its own path.\<close>

lemma none_root_keeps_path:
  assumes "cm_config s = CNone"
  shows "\<not> overwrites_own_path s keys"
proof (rule distinct_trail_keeps_path)
  fix r
  assume "dict_ref (cm_objects (ensure_root s)) (cm_config (ensure_root s)) = Some r"
  with assms have r: "r = length (cm_objects s)"
    and o: "cm_objects (ensure_root s) = cm_objects s @ [[]]"
    by (auto simp: ensure_root_def)
  show "distinct (trail (cm_objects (ensure_root s)) r (butlast (dotted_keys keys)))"
    using fresh_trail[of "length (cm_objects s)" "cm_objects s @ [[]]"] by (simp add: r o)
qed

section \<open>\<open>validate_model_files\<close> and \<open>validate_files\<close>\<close>

text \<open>
  C8: for a model type of the sherpa family (one that starts with \<open>sherpa\<close>),
  \<open>validate_model_files(model_path, model_type)\<close> returns True if and only if
  the model root exists and \<open>encoder.onnx\<close>, \<open>decoder.onnx\<close>, \<open>joiner.onnx\<close> and
  \<open>tokens.txt\<close> all exist directly under it.
\<close>

theorem validate_model_files_sherpa:
  assumes "prefix ''sherpa'' model_type"
  shows "validate_model_files env root model_type =
     (path_exists env root \<and>
      path_exists env (path_join env root ''encoder.onnx'') \<and>
      path_exists env (path_join env root ''decoder.onnx'') \<and>
      path_exists env (path_join env root ''joiner.onnx'') \<and>
      path_exists env (path_join env root ''tokens.txt''))"
  using assms by (simp add: validate_model_files_def required_files_def)

theorem validate_model_files_sherpa_witness:
  "prefix ''sherpa'' ''sherpa_onnx'' \<and>
   validate_model_files sherpa_env ''/m'' ''sherpa_onnx'' = True \<and>
   validate_model_files sherpa_incomplete_env ''/m'' ''sherpa_onnx'' = False \<and>
   validate_model_files sherpa_env ''/n'' ''sherpa_onnx'' = False"
proof -
  have p: "prefix ''sherpa'' ''sherpa_onnx''" by simp
  show ?thesis
    using validate_model_files_sherpa[OF p, of sherpa_env "''/m''"]
      validate_model_files_sherpa[OF p, of sherpa_incomplete_env "''/m''"]
      validate_model_files_sherpa[OF p, of sherpa_env "''/n''"]
    by (simp add: sherpa_env_def sherpa_incomplete_env_def posix_defs posix_join_def)
qed

text \<open>
  \<open>validate_files\<close> reads the \<open>path\<close> entry of the configuration only while
  \<open>self.model_dir\<close> is unset; once a root is cached there, that root is the one
  it checks.
\<close>

lemma validate_files_uncached:
  assumes "\<not> truthy (model_dir p)" "plugin_config p = Some c" "heap_lookup h c = Some d"
    and "get_config_value d ''path'' PNone = PStr root"
  shows "fst (validate_files env h p) =
     Inr (root \<noteq> [] \<and> path_exists env root \<and>
          path_exists env (path_join env root ''am'') \<and>
          path_isdir env (path_join env root ''am'') \<and>
          path_exists env (path_join env (path_join env root ''am'') ''final.mdl''))"
  using assms
  by (auto simp: validate_files_def validate_files_body_def except_Exception_def Let_def)

lemma validate_files_cached:
  assumes "model_dir p = PStr root" "root \<noteq> []"
  shows "fst (validate_files env h p) =
     Inr (path_exists env root \<and>
          path_exists env (path_join env root ''am'') \<and>
          path_isdir env (path_join env root ''am'') \<and>
          path_exists env (path_join env (path_join env root ''am'') ''final.mdl''))"
  using assms
  by (auto simp: validate_files_def validate_files_body_def except_Exception_def Let_def)

text \<open>
  C7, at the failing input: the plugin is initialised with the complete model
  root \<open>/m\<close>, \<open>validate_files()\<close> returns True and caches \<open>/m\<close> in
  \<open>self.model_dir\<close>; \<open>load_model('/k')\<close> succeeds and makes \<open>/k\<close> the configured
  root, a directory without \<open>am\<close>; \<open>validate_files()\<close> then still returns
  True, where the configured root lacks its acoustic-model subdirectory.
\<close>

theorem validate_files_stale_root:
  "initialize vosk_lib vosk_model_env [[(''path'', PStr ''/m'')]] new_plugin 0
     = (Inr True, [[(''path'', PStr ''/m'')]], loaded_plugin ''/m'' PNone) \<and>
   validate_files vosk_model_env [[(''path'', PStr ''/m'')]] (loaded_plugin ''/m'' PNone)
     = (Inr True, loaded_plugin ''/m'' (PStr ''/m'')) \<and>
   load_model vosk_lib vosk_model_env [[(''path'', PStr ''/m'')]]
       (loaded_plugin ''/m'' (PStr ''/m'')) ''/k''
     = (Inr True, [[(''path'', PStr ''/k'')], [(''path'', PStr ''/m'')]],
        loaded_plugin ''/k'' (PStr ''/m'')) \<and>
   path_exists vosk_model_env ''/k'' \<and>
   \<not> path_exists vosk_model_env (path_join vosk_model_env ''/k'' ''am'') \<and>
   validate_files vosk_model_env [[(''path'', PStr ''/k'')], [(''path'', PStr ''/m'')]]
       (loaded_plugin ''/k'' (PStr ''/m''))
     = (Inr True, loaded_plugin ''/k'' (PStr ''/m''))"
  by (simp add: initialize_def initialize_body_def plugin_setup_def plugin_setup_body_def
        load_model_def load_model_body_def heap_copy_def teardown_def
        validate_files_def validate_files_body_def
        except_Exception_def vosk_model_env_def posix_defs
        new_plugin_def loaded_plugin_def heap_lookup_def get_config_value_def dict_get_def
        dict_set_def resolve_model_path_def load_engine_def load_vosk_model_def
        create_vosk_recognizer_def vosk_lib_def Let_def)

section \<open>\<open>setup\<close> and \<open>initialize\<close>\<close>

lemma except_Exception_fst:
  "fst (except_Exception d r) = Inr (case fst r of Inl e \<Rightarrow> d | Inr v \<Rightarrow> v)"
  by (cases r) (auto simp: except_Exception_def split: sum.splits)

lemma except_Exception_snd: "snd (except_Exception d r) = snd r"
  by (cases r) (auto simp: except_Exception_def split: sum.splits)

lemma create_vosk_recognizer_config:
  "plugin_config (snd (create_vosk_recognizer lib mock_mode m p)) = plugin_config p"
  by (auto simp: create_vosk_recognizer_def Let_def split: option.splits)

lemma load_engine_config:
  "plugin_config (snd (load_engine lib mp mock_mode p)) = plugin_config p"
  by (auto simp: load_engine_def create_vosk_recognizer_config split: option.splits sum.splits)

lemma load_engine_model:
  "Model lib np = Some m \<Longrightarrow> model (snd (load_engine lib np mock_mode p)) = Some m"
  by (auto simp: load_engine_def load_vosk_model_def create_vosk_recognizer_def Let_def
           split: option.splits)

text \<open>What \<open>setup\<close> leaves alone: the binding of \<open>self._config\<close>, every other object, every other key.\<close>

lemma setup_body_config:
  "plugin_config (snd (snd (plugin_setup_body lib env h p))) = plugin_config p"
  by (auto simp: plugin_setup_body_def Let_def split_beta load_engine_config
           split: option.splits pyval.splits path_resolution.splits)

lemma setup_body_heap_length:
  "length (fst (snd (plugin_setup_body lib env h p))) = length h"
  by (auto simp: plugin_setup_body_def Let_def split_beta
           split: option.splits pyval.splits path_resolution.splits)

lemma setup_body_heap_other:
  "plugin_config p \<noteq> Some i \<Longrightarrow> fst (snd (plugin_setup_body lib env h p)) ! i = h ! i"
  by (auto simp: plugin_setup_body_def Let_def split_beta
           split: option.splits pyval.splits path_resolution.splits)

lemma setup_body_heap_keys:
  "k \<noteq> ''path'' \<Longrightarrow> plugin_config p = Some c \<Longrightarrow>
   dict_get (fst (snd (plugin_setup_body lib env h p)) ! c) k = dict_get (h ! c) k"
  by (auto simp: plugin_setup_body_def Let_def split_beta heap_lookup_def dict_get_def
           dict_set_def update_conv'
           split: option.splits pyval.splits path_resolution.splits if_splits)

lemma setup_never_raises: "\<exists>b. fst (plugin_setup lib env h p) = Inr b"
  by (simp add: plugin_setup_def except_Exception_fst)

lemma setup_body_string_path:
  assumes "plugin_config p = Some c" and "heap_lookup h c = Some d"
    and "get_config_value d ''path'' PNone = PStr mp" and "mp \<noteq> []"
  shows "plugin_setup_body lib env h p =
     (let mock_mode = truthy (get_config_value d ''mock_mode'' (PBool False));
          p1 = p\<lparr> sample_rate := get_config_value d ''sample_rate'' (PInt 16000),
                  use_words := get_config_value d ''use_words'' (PBool True) \<rparr>
      in case resolve_model_path env mp mock_mode of
           NotFound \<Rightarrow> (Inr False, h, p1)
         | Unchanged \<Rightarrow> (case load_engine lib mp mock_mode p1 of (r, p2) \<Rightarrow> (r, h, p2))
         | Replaced np \<Rightarrow>
             (case load_engine lib np mock_mode p1 of
                (r, p2) \<Rightarrow> (r, h[c := dict_set d ''path'' (PStr np)], p2)))"
  using assms by (simp add: plugin_setup_body_def Let_def)

lemma initialize_as_setup:
  "fst (initialize lib env h p c) = fst (plugin_setup lib env h (p\<lparr> plugin_config := Some c \<rparr>)) \<and>
   fst (snd (initialize lib env h p c))
     = fst (snd (plugin_setup lib env h (p\<lparr> plugin_config := Some c \<rparr>)))"
proof -
  obtain b where "fst (plugin_setup lib env h (p\<lparr> plugin_config := Some c \<rparr>)) = Inr b"
    using setup_never_raises by blast
  then show ?thesis
    by (cases "plugin_setup lib env h (p\<lparr> plugin_config := Some c \<rparr>)")
       (auto simp: initialize_def initialize_body_def except_Exception_def)
qed

text \<open>
  C1, as stated, fails: a plugin that is not in mock mode, configured with the
  relative path \<open>models/vosk\<close>, which does not exist, is initialised with
  success when \<open>models/vosk\<close> exists under the project root, and the \<open>path\<close>
  entry of the configuration is replaced by that guessed location.
\<close>

theorem setup_substitutes_path_counterexample:
  "get_config_value relative_config ''mock_mode'' (PBool False) = PBool False \<and>
   get_config_value relative_config ''path'' PNone = PStr ''models/vosk'' \<and>
   \<not> path_exists guess_env ''models/vosk'' \<and>
   fst (initialize vosk_lib guess_env [relative_config] new_plugin 0) = Inr True \<and>
   fst (snd (initialize vosk_lib guess_env [relative_config] new_plugin 0))
     = [[(''path'', PStr ''/app/models/vosk'')]]"
  by (simp add: initialize_def initialize_body_def plugin_setup_def plugin_setup_body_def
        except_Exception_def guess_env_def posix_defs posix_join_def posix_isabs_def
        new_plugin_def heap_lookup_def get_config_value_def dict_get_def dict_set_def
        resolve_model_path_def load_engine_def load_vosk_model_def create_vosk_recognizer_def
        vosk_lib_def relative_config_def Let_def)

text \<open>
  C1, amended: for every \<open>initialize\<close>/\<open>setup\<close> call on a plugin that is not in
  mock mode and whose configured model path (a non-empty string) does not
  exist: when the path is absolute, or when neither the path under the project
  root nor the hardcoded location exists, the call returns False and leaves
  every configuration mapping as it was; when the path is relative and exists
  under the project root, the \<open>path\<close> entry of the retained mapping is replaced
  by that location and the model is loaded from it; when it does not, but the
  hardcoded location exists, the entry is replaced by the hardcoded location
  and the model is loaded from there. \<open>initialize\<close> returns what \<open>setup\<close> returns,
  with the same mappings.
\<close>

theorem setup_resolves_missing_path:
  assumes cfg: "plugin_config p = Some c" "heap_lookup h c = Some d"
    and path: "get_config_value d ''path'' PNone = PStr mp" "mp \<noteq> []"
    and nomock: "\<not> truthy (get_config_value d ''mock_mode'' (PBool False))"
    and missing: "\<not> path_exists env mp"
  shows
   "(path_isabs env mp \<or>
       (\<not> path_exists env (path_join env (project_root env) mp) \<and>
        \<not> path_exists env hardcoded_model_path)
     \<longrightarrow> fst (plugin_setup lib env h p) = Inr False \<and>
         fst (snd (plugin_setup lib env h p)) = h) \<and>
    (\<not> path_isabs env mp \<and> path_exists env (path_join env (project_root env) mp)
     \<longrightarrow> fst (snd (plugin_setup lib env h p))
           = h[c := dict_set d ''path'' (PStr (path_join env (project_root env) mp))] \<and>
         (\<forall>m. Model lib (path_join env (project_root env) mp) = Some m
              \<longrightarrow> model (snd (snd (plugin_setup lib env h p))) = Some m)) \<and>
    (\<not> path_isabs env mp \<and> \<not> path_exists env (path_join env (project_root env) mp) \<and>
       path_exists env hardcoded_model_path
     \<longrightarrow> fst (snd (plugin_setup lib env h p))
           = h[c := dict_set d ''path'' (PStr hardcoded_model_path)] \<and>
         (\<forall>m. Model lib hardcoded_model_path = Some m
              \<longrightarrow> model (snd (snd (plugin_setup lib env h p))) = Some m)) \<and>
    fst (initialize lib env h p c) = fst (plugin_setup lib env h p) \<and>
    fst (snd (initialize lib env h p c)) = fst (snd (plugin_setup lib env h p))"
proof -
  let ?p1 = "p\<lparr> sample_rate := get_config_value d ''sample_rate'' (PInt 16000),
                 use_words := get_config_value d ''use_words'' (PBool True) \<rparr>"
  let ?root = "path_join env (project_root env) mp"
  have body: "plugin_setup_body lib env h p =
     (case resolve_model_path env mp False of
           NotFound \<Rightarrow> (Inr False, h, ?p1)
         | Unchanged \<Rightarrow> (case load_engine lib mp False ?p1 of (r, p2) \<Rightarrow> (r, h, p2))
         | Replaced np \<Rightarrow>
             (case load_engine lib np False ?p1 of
                (r, p2) \<Rightarrow> (r, h[c := dict_set d ''path'' (PStr np)], p2)))"
    using setup_body_string_path[OF cfg path, of lib env] nomock by (simp add: Let_def)
  have a: "path_isabs env mp \<or>
       (\<not> path_exists env ?root \<and> \<not> path_exists env hardcoded_model_path)
     \<Longrightarrow> plugin_setup_body lib env h p = (Inr False, h, ?p1)"
    using missing by (auto simp: body resolve_model_path_def Let_def)
  have b: "\<not> path_isabs env mp \<and> path_exists env ?root
     \<Longrightarrow> plugin_setup_body lib env h p =
         (case load_engine lib ?root False ?p1 of
            (r, p2) \<Rightarrow> (r, h[c := dict_set d ''path'' (PStr ?root)], p2))"
    using missing by (auto simp: body resolve_model_path_def Let_def)
  have c: "\<not> path_isabs env mp \<and> \<not> path_exists env ?root \<and>
       path_exists env hardcoded_model_path
     \<Longrightarrow> plugin_setup_body lib env h p =
         (case load_engine lib hardcoded_model_path False ?p1 of
            (r, p2) \<Rightarrow> (r, h[c := dict_set d ''path'' (PStr hardcoded_model_path)], p2))"
    using missing by (auto simp: body resolve_model_path_def Let_def)
  have same: "p\<lparr> plugin_config := Some c \<rparr> = p" using cfg by simp
  show ?thesis
    using a b c initialize_as_setup[of lib env h p c] same
    by (auto simp: plugin_setup_def except_Exception_fst except_Exception_snd split_beta
          load_engine_model)
qed

theorem setup_resolves_missing_path_witness:
  "\<not> path_exists guess_env ''models/vosk'' \<and>
   \<not> path_isabs guess_env ''models/vosk'' \<and>
   path_exists guess_env (path_join guess_env (project_root guess_env) ''models/vosk'') \<and>
   fst (snd (plugin_setup vosk_lib guess_env [relative_config]
               (new_plugin\<lparr> plugin_config := Some 0 \<rparr>)))
     = [[(''path'', PStr ''/app/models/vosk'')]] \<and>
   model (snd (snd (plugin_setup vosk_lib guess_env [relative_config]
               (new_plugin\<lparr> plugin_config := Some 0 \<rparr>))))
     = Some \<lparr> mock_model_path = ''/app/models/vosk'' \<rparr> \<and>
   \<not> path_exists empty_env ''models/vosk'' \<and>
   fst (plugin_setup vosk_lib empty_env [relative_config]
          (new_plugin\<lparr> plugin_config := Some 0 \<rparr>)) = Inr False \<and>
   fst (snd (plugin_setup vosk_lib empty_env [relative_config]
          (new_plugin\<lparr> plugin_config := Some 0 \<rparr>))) = [relative_config]"
proof -
  let ?p = "new_plugin\<lparr> plugin_config := Some 0 \<rparr>"
  have c1: "plugin_config ?p = Some 0" by simp
  have c2: "heap_lookup [relative_config] 0 = Some relative_config"
    by (simp add: heap_lookup_def)
  have c3: "get_config_value relative_config ''path'' PNone = PStr ''models/vosk''"
    by (simp add: get_config_value_def dict_get_def relative_config_def)
  have c4: "''models/vosk'' \<noteq> []" by simp
  have c5: "\<not> truthy (get_config_value relative_config ''mock_mode'' (PBool False))"
    by (simp add: get_config_value_def dict_get_def relative_config_def)
  have g: "\<not> path_exists guess_env ''models/vosk''"
    by (simp add: guess_env_def posix_defs)
  have e: "\<not> path_exists empty_env ''models/vosk''"
    by (simp add: empty_env_def posix_defs)
  have m: "Model vosk_lib ''/app/models/vosk'' = Some \<lparr> mock_model_path = ''/app/models/vosk'' \<rparr>"
    by (simp add: vosk_lib_def)
  show ?thesis
    using setup_resolves_missing_path[OF c1 c2 c3 c4 c5 g, of vosk_lib]
      setup_resolves_missing_path[OF c1 c2 c3 c4 c5 e, of vosk_lib] m
    by (simp add: guess_env_def empty_env_def posix_defs posix_join_def posix_isabs_def
          relative_config_def dict_set_def hardcoded_model_path_def backslash_def)
qed

lemma setup_config: "plugin_config (snd (snd (plugin_setup lib env h p))) = plugin_config p"
  by (simp add: plugin_setup_def except_Exception_snd setup_body_config)

lemma setup_heap_length: "length (fst (snd (plugin_setup lib env h p))) = length h"
  by (simp add: plugin_setup_def except_Exception_snd setup_body_heap_length)

lemma setup_heap_other:
  "plugin_config p \<noteq> Some i \<Longrightarrow> fst (snd (plugin_setup lib env h p)) ! i = h ! i"
  by (simp add: plugin_setup_def except_Exception_snd setup_body_heap_other)

lemma setup_heap_keys:
  "k \<noteq> ''path'' \<Longrightarrow> plugin_config p = Some c \<Longrightarrow>
   dict_get (fst (snd (plugin_setup lib env h p)) ! c) k = dict_get (h ! c) k"
  by (simp add: plugin_setup_def except_Exception_snd setup_body_heap_keys)

lemma initialize_snd:
  "plugin_config (snd (snd (initialize lib env h p c))) = Some c"
proof -
  obtain b where "fst (plugin_setup lib env h (p\<lparr> plugin_config := Some c \<rparr>)) = Inr b"
    using setup_never_raises by blast
  then show ?thesis
    using setup_config[of lib env h "p\<lparr> plugin_config := Some c \<rparr>"]
    by (cases "plugin_setup lib env h (p\<lparr> plugin_config := Some c \<rparr>)")
       (auto simp: initialize_def initialize_body_def except_Exception_def)
qed

text \<open>
  C2, amended: \<open>initialize\<close> retains the caller's mapping object itself; no
  copy is made, so what \<open>setup\<close> writes into the retained mapping (the
  placeholder path of mock mode, a relative path resolved against the project
  root, the hardcoded location) is observable in the caller's mapping. The
  writes are confined to the \<open>path\<close> entry of that one mapping: every other
  entry of it, and every other mapping, is as before, and no mapping is created.
\<close>

theorem initialize_shares_config:
  "plugin_config (snd (snd (initialize lib env h p c))) = Some c \<and>
   length (fst (snd (initialize lib env h p c))) = length h \<and>
   (\<forall>i. i \<noteq> c \<longrightarrow> fst (snd (initialize lib env h p c)) ! i = h ! i) \<and>
   (\<forall>k. k \<noteq> ''path'' \<longrightarrow>
        dict_get (fst (snd (initialize lib env h p c)) ! c) k = dict_get (h ! c) k)"
  using initialize_as_setup[of lib env h p c]
  by (auto simp: initialize_snd setup_heap_length setup_heap_other setup_heap_keys)

text \<open>
  C2, as stated, fails: the caller passes a mapping that only enables mock mode;
  after \<open>initialize\<close> the plugin holds a reference to that very object, and the
  object has received a \<open>path\<close> entry.
\<close>

theorem initialize_mutates_caller_config_counterexample:
  "fst (initialize vosk_lib empty_env [mock_config] new_plugin 0) = Inr True \<and>
   plugin_config (snd (snd (initialize vosk_lib empty_env [mock_config] new_plugin 0))) = Some 0 \<and>
   fst (snd (initialize vosk_lib empty_env [mock_config] new_plugin 0)) ! 0
     = [(''mock_mode'', PBool True),
        (''path'', PStr ''/work/models/asr/vosk/vosk-model-small-en-us-0.15'')] \<and>
   fst (snd (initialize vosk_lib empty_env [mock_config] new_plugin 0)) ! 0 \<noteq> mock_config"
  by (simp add: initialize_def initialize_body_def plugin_setup_def plugin_setup_body_def
        except_Exception_def empty_env_def posix_defs posix_join_def posix_isabs_def
        new_plugin_def heap_lookup_def get_config_value_def dict_get_def dict_set_def
        resolve_model_path_def load_engine_def load_vosk_model_def create_vosk_recognizer_def
        vosk_lib_def mock_config_def temp_model_path_def join_all_def Let_def)

theorem initialize_shares_config_witness:
  "plugin_config (snd (snd (initialize vosk_lib guess_env [relative_config, mock_config] new_plugin 0))) = Some 0 \<and>
   length (fst (snd (initialize vosk_lib guess_env [relative_config, mock_config] new_plugin 0))) = 2 \<and>
   fst (snd (initialize vosk_lib guess_env [relative_config, mock_config] new_plugin 0)) ! 1 = mock_config \<and>
   dict_get (fst (snd (initialize vosk_lib guess_env [relative_config, mock_config] new_plugin 0)) ! 0) ''sample_rate''
     = None"
  using initialize_shares_config[of vosk_lib guess_env "[relative_config, mock_config]" new_plugin 0]
  by (simp add: relative_config_def dict_get_def)

lemma load_engine_success:
  assumes "fst (load_engine lib np False p) = Inr True"
  shows "\<exists>m r r'. Model lib np = Some m \<and> KaldiRecognizer lib m (sample_rate p) = Some r \<and>
           SetWords lib r (use_words p) = Some r' \<and>
           model (snd (load_engine lib np False p)) = Some m \<and>
           recognizer (snd (load_engine lib np False p)) = Some r'"
  using assms
  by (auto simp: load_engine_def load_vosk_model_def create_vosk_recognizer_def Let_def
           split: option.splits)

lemma resolve_unchanged_exists:
  "resolve_model_path env mp False = Unchanged \<Longrightarrow> path_exists env mp"
  by (auto simp: resolve_model_path_def Let_def split: if_splits)

lemma resolve_replaced_exists:
  "resolve_model_path env mp False = Replaced np \<Longrightarrow> path_exists env np"
  by (auto simp: resolve_model_path_def Let_def split: if_splits)

lemma load_engine_rates:
  "sample_rate (snd (load_engine lib np mock_mode p)) = sample_rate p \<and>
   use_words (snd (load_engine lib np mock_mode p)) = use_words p"
  by (auto simp: load_engine_def load_vosk_model_def create_vosk_recognizer_def Let_def
           split: option.splits)

lemma setup_body_success_nonmock:
  assumes ok: "fst (plugin_setup_body lib env h p) = Inr True"
    and cfg: "plugin_config p = Some c" "heap_lookup h c = Some d"
    and nomock: "\<not> truthy (get_config_value d ''mock_mode'' (PBool False))"
  shows "\<exists>np m r r'. path_exists env np \<and> Model lib np = Some m \<and>
           KaldiRecognizer lib m (sample_rate (snd (snd (plugin_setup_body lib env h p)))) = Some r \<and>
           SetWords lib r (use_words (snd (snd (plugin_setup_body lib env h p)))) = Some r' \<and>
           model (snd (snd (plugin_setup_body lib env h p))) = Some m \<and>
           recognizer (snd (snd (plugin_setup_body lib env h p))) = Some r'"
proof -
  from ok cfg nomock obtain mp where mp: "get_config_value d ''path'' PNone = PStr mp" "mp \<noteq> []"
    by (cases "get_config_value d ''path'' PNone")
       (auto simp: plugin_setup_body_def Let_def split: if_splits)
  let ?p1 = "p\<lparr> sample_rate := get_config_value d ''sample_rate'' (PInt 16000),
                 use_words := get_config_value d ''use_words'' (PBool True) \<rparr>"
  note body = setup_body_string_path[OF cfg mp, of lib env]
  show ?thesis
  proof (cases "resolve_model_path env mp False")
    case Unchanged
    with body nomock ok have "fst (load_engine lib mp False ?p1) = Inr True"
      by (simp add: Let_def split_beta)
    from load_engine_success[OF this] resolve_unchanged_exists[OF Unchanged]
      load_engine_rates[of lib mp False ?p1]
    show ?thesis using body nomock Unchanged by (simp add: Let_def split_beta) blast
  next
    case (Replaced np)
    with body nomock ok have "fst (load_engine lib np False ?p1) = Inr True"
      by (simp add: Let_def split_beta)
    from load_engine_success[OF this] resolve_replaced_exists[OF Replaced]
      load_engine_rates[of lib np False ?p1]
    show ?thesis using body nomock Replaced by (simp add: Let_def split_beta) blast
  next
    case NotFound
    with body nomock ok show ?thesis by (simp add: Let_def)
  qed
qed

lemma initialize_result:
  "fst (initialize lib env h p c)
     = Inr (fst (plugin_setup_body lib env h (p\<lparr> plugin_config := Some c \<rparr>)) = Inr True)"
  using initialize_as_setup[of lib env h p c]
  by (auto simp: plugin_setup_def except_Exception_fst split: sum.splits)

lemma initialize_fields:
  "model (snd (snd (initialize lib env h p c)))
     = model (snd (snd (plugin_setup_body lib env h (p\<lparr> plugin_config := Some c \<rparr>)))) \<and>
   recognizer (snd (snd (initialize lib env h p c)))
     = recognizer (snd (snd (plugin_setup_body lib env h (p\<lparr> plugin_config := Some c \<rparr>)))) \<and>
   sample_rate (snd (snd (initialize lib env h p c)))
     = sample_rate (snd (snd (plugin_setup_body lib env h (p\<lparr> plugin_config := Some c \<rparr>)))) \<and>
   use_words (snd (snd (initialize lib env h p c)))
     = use_words (snd (snd (plugin_setup_body lib env h (p\<lparr> plugin_config := Some c \<rparr>))))"
  by (cases "plugin_setup_body lib env h (p\<lparr> plugin_config := Some c \<rparr>)")
     (auto simp: initialize_def initialize_body_def plugin_setup_def except_Exception_def
           split: sum.splits)

lemma setup_body_no_path:
  assumes "plugin_config p = Some c" "heap_lookup h c = Some d"
    and "\<not> truthy (get_config_value d ''mock_mode'' (PBool False))"
    and "\<not> truthy (get_config_value d ''path'' PNone)"
  shows "plugin_setup_body lib env h p = (Inr False, h, p)"
  using assms by (simp add: plugin_setup_body_def Let_def)

lemma setup_body_no_config:
  assumes "heap_lookup h c = None" "plugin_config p = Some c"
  shows "plugin_setup_body lib env h p = (Inl AttributeError, h, p)"
  using assms by (simp add: plugin_setup_body_def)

lemma get_config_value_after_path:
  "key \<noteq> ''path'' \<Longrightarrow>
   get_config_value (dict_set d ''path'' v) key dflt = get_config_value d key dflt"
  by (simp add: get_config_value_def dict_get_set_other)

lemma setup_body_mock_no_path:
  assumes "plugin_config p = Some c" "heap_lookup h c = Some d"
    and "truthy (get_config_value d ''mock_mode'' (PBool False))"
    and "\<not> truthy (get_config_value d ''path'' PNone)"
  shows "fst (plugin_setup_body lib env h p) =
     fst (load_engine lib (temp_model_path env) True
            (p\<lparr> sample_rate := get_config_value d ''sample_rate'' (PInt 16000),
                use_words := get_config_value d ''use_words'' (PBool True) \<rparr>))"
  using assms
  by (simp add: plugin_setup_body_def Let_def resolve_model_path_def split_beta
        get_config_value_after_path)

lemma setup_body_mock_path:
  assumes "plugin_config p = Some c" "heap_lookup h c = Some d"
    and "truthy (get_config_value d ''mock_mode'' (PBool False))"
    and "get_config_value d ''path'' PNone = PStr mp" "mp \<noteq> []"
  shows "fst (plugin_setup_body lib env h p) =
     fst (load_engine lib mp True
            (p\<lparr> sample_rate := get_config_value d ''sample_rate'' (PInt 16000),
                use_words := get_config_value d ''use_words'' (PBool True) \<rparr>))"
  using setup_body_string_path[OF assms(1,2,4,5), of lib env] assms(3)
  by (simp add: Let_def resolve_model_path_def split_beta)

lemma setup_body_nonmock_existing_path:
  assumes "plugin_config p = Some c" "heap_lookup h c = Some d"
    and "\<not> truthy (get_config_value d ''mock_mode'' (PBool False))"
    and "get_config_value d ''path'' PNone = PStr mp" "mp \<noteq> []" "path_exists env mp"
  shows "fst (plugin_setup_body lib env h p) =
     fst (load_engine lib mp False
            (p\<lparr> sample_rate := get_config_value d ''sample_rate'' (PInt 16000),
                use_words := get_config_value d ''use_words'' (PBool True) \<rparr>))"
  using setup_body_string_path[OF assms(1,2,4,5), of lib env] assms(3,6)
  by (simp add: Let_def resolve_model_path_def split_beta)

lemma setup_body_nonmock_unresolved:
  assumes "plugin_config p = Some c" "heap_lookup h c = Some d"
    and "\<not> truthy (get_config_value d ''mock_mode'' (PBool False))"
    and "get_config_value d ''path'' PNone = PStr mp" "mp \<noteq> []" "\<not> path_exists env mp"
    and "path_isabs env mp \<or>
         (\<not> path_exists env (path_join env (project_root env) mp) \<and>
          \<not> path_exists env hardcoded_model_path)"
  shows "fst (plugin_setup_body lib env h p) = Inr False"
  using setup_body_string_path[OF assms(1,2,4,5), of lib env] assms(3,6,7)
  by (auto simp: Let_def resolve_model_path_def split_beta)

lemma load_engine_ok:
  assumes "Model lib np = Some m" "KaldiRecognizer lib m (sample_rate p) = Some r"
    and "SetWords lib r (use_words p) = Some r'"
  shows "fst (load_engine lib np mock_mode p) = Inr True"
  using assms
  by (simp add: load_engine_def load_vosk_model_def create_vosk_recognizer_def Let_def)

lemma load_engine_placeholder_model:
  assumes "Model lib np = None" "Model lib ''mock_model_path'' = Some m"
    and "KaldiRecognizer lib m (sample_rate p) = Some r"
    and "SetWords lib r (use_words p) = Some r'"
  shows "fst (load_engine lib np True p) = Inr True"
  using assms
  by (simp add: load_engine_def load_vosk_model_def create_vosk_recognizer_def Let_def)

lemma load_engine_second_recognizer:
  assumes "Model lib np = Some m" "KaldiRecognizer lib m (sample_rate p) = Some r"
    and "SetWords lib r (use_words p) = None"
  shows "fst (load_engine lib np True p) = Inr True"
  using assms
  by (simp add: load_engine_def load_vosk_model_def create_vosk_recognizer_def Let_def)

lemma load_engine_model_error:
  assumes "Model lib np = None"
  shows "fst (load_engine lib np False p) = Inr False"
  using assms by (simp add: load_engine_def load_vosk_model_def)

lemma load_engine_recognizer_error:
  assumes "Model lib np = Some m"
    and "KaldiRecognizer lib m (sample_rate p) = None \<or>
         (\<exists>r. KaldiRecognizer lib m (sample_rate p) = Some r \<and> SetWords lib r (use_words p) = None)"
  shows "fst (load_engine lib np False p) = Inr False"
  using assms
  by (auto simp: load_engine_def load_vosk_model_def create_vosk_recognizer_def Let_def)

text \<open>
  C5, as stated, fails: in mock mode a missing path and a model load error are
  internal failures after which \<open>initialize\<close> returns True. A configuration
  that only enables mock mode is initialised with success, and so is one in
  mock mode whose model at \<open>/m\<close> cannot be loaded.
\<close>

theorem initialize_mock_mode_counterexample:
  "get_config_value mock_config ''path'' PNone = PNone \<and>
   fst (initialize vosk_lib empty_env [mock_config] new_plugin 0) = Inr True \<and>
   path_exists vosk_model_env ''/m'' \<and>
   get_config_value mock_model_config ''path'' PNone = PStr ''/m'' \<and>
   Model fallback_lib ''/m'' = None \<and>
   fst (initialize fallback_lib vosk_model_env [mock_model_config] new_plugin 0) = Inr True"
  by (simp add: initialize_def initialize_body_def plugin_setup_def plugin_setup_body_def
        except_Exception_def empty_env_def vosk_model_env_def posix_defs
        new_plugin_def heap_lookup_def get_config_value_def dict_get_def dict_set_def
        resolve_model_path_def load_engine_def load_vosk_model_def create_vosk_recognizer_def
        vosk_lib_def fallback_lib_def mock_config_def mock_model_config_def
        temp_model_path_def join_all_def Let_def)

text \<open>
  C5, amended: for every configuration mapping, \<open>initialize(config)\<close> returns a
  boolean and no exception leaves it: the result is True exactly when the body
  of \<open>setup\<close> ran to its \<open>return True\<close>, and False when that body returned
  False or raised, as it does when the configuration object cannot be read.
  Outside mock mode every internal failure gives False: a missing path, a path
  that exists neither as given nor under the project root nor at the hardcoded
  location, a model load error, an error in creating or configuring the
  recogniser; and a True result means that a model was loaded from an existing
  path and a recogniser was created and configured without error. In mock mode
  the call returns True after a missing path (the placeholder path is used),
  after a model load error (the placeholder model is loaded) and after an error
  in configuring the recogniser (it is created once more), provided the
  recovery itself does not raise.
\<close>

theorem initialize_returns_bool:
  "fst (initialize lib env h p c)
     = Inr (fst (plugin_setup_body lib env h (p\<lparr> plugin_config := Some c \<rparr>)) = Inr True) \<and>
   (heap_lookup h c = None \<longrightarrow> fst (initialize lib env h p c) = Inr False) \<and>
   (\<forall>d. heap_lookup h c = Some d \<and>
        \<not> truthy (get_config_value d ''mock_mode'' (PBool False)) \<longrightarrow>
      (\<not> truthy (get_config_value d ''path'' PNone)
         \<longrightarrow> fst (initialize lib env h p c) = Inr False) \<and>
      (\<forall>mp. get_config_value d ''path'' PNone = PStr mp \<and> mp \<noteq> [] \<longrightarrow>
         (\<not> path_exists env mp \<and>
          (path_isabs env mp \<or>
           (\<not> path_exists env (path_join env (project_root env) mp) \<and>
            \<not> path_exists env hardcoded_model_path))
            \<longrightarrow> fst (initialize lib env h p c) = Inr False) \<and>
         (path_exists env mp \<and> Model lib mp = None
            \<longrightarrow> fst (initialize lib env h p c) = Inr False) \<and>
         (\<forall>m. path_exists env mp \<and> Model lib mp = Some m \<and>
              (KaldiRecognizer lib m (get_config_value d ''sample_rate'' (PInt 16000)) = None \<or>
               (\<exists>r. KaldiRecognizer lib m (get_config_value d ''sample_rate'' (PInt 16000)) = Some r \<and>
                    SetWords lib r (get_config_value d ''use_words'' (PBool True)) = None))
            \<longrightarrow> fst (initialize lib env h p c) = Inr False)) \<and>
      (fst (initialize lib env h p c) = Inr True
         \<longrightarrow> (\<exists>np m r r'. path_exists env np \<and> Model lib np = Some m \<and>
               KaldiRecognizer lib m (sample_rate (snd (snd (initialize lib env h p c)))) = Some r \<and>
               SetWords lib r (use_words (snd (snd (initialize lib env h p c)))) = Some r' \<and>
               model (snd (snd (initialize lib env h p c))) = Some m \<and>
               recognizer (snd (snd (initialize lib env h p c))) = Some r'))) \<and>
   (\<forall>d. heap_lookup h c = Some d \<and>
        truthy (get_config_value d ''mock_mode'' (PBool False)) \<longrightarrow>
      (\<forall>m r r'. \<not> truthy (get_config_value d ''path'' PNone) \<and>
           Model lib (temp_model_path env) = Some m \<and>
           KaldiRecognizer lib m (get_config_value d ''sample_rate'' (PInt 16000)) = Some r \<and>
           SetWords lib r (get_config_value d ''use_words'' (PBool True)) = Some r'
         \<longrightarrow> fst (initialize lib env h p c) = Inr True) \<and>
      (\<forall>mp m r r'. get_config_value d ''path'' PNone = PStr mp \<and> mp \<noteq> [] \<and>
           Model lib mp = None \<and> Model lib ''mock_model_path'' = Some m \<and>
           KaldiRecognizer lib m (get_config_value d ''sample_rate'' (PInt 16000)) = Some r \<and>
           SetWords lib r (get_config_value d ''use_words'' (PBool True)) = Some r'
         \<longrightarrow> fst (initialize lib env h p c) = Inr True) \<and>
      (\<forall>mp m r. get_config_value d ''path'' PNone = PStr mp \<and> mp \<noteq> [] \<and>
           Model lib mp = Some m \<and>
           KaldiRecognizer lib m (get_config_value d ''sample_rate'' (PInt 16000)) = Some r \<and>
           SetWords lib r (get_config_value d ''use_words'' (PBool True)) = None
         \<longrightarrow> fst (initialize lib env h p c) = Inr True))"
proof -
  let ?q = "p\<lparr> plugin_config := Some c \<rparr>"
  let ?res = "fst (initialize lib env h p c)"
  have q: "plugin_config ?q = Some c" by simp
  note res = initialize_result[of lib env h p c]
  have none: "heap_lookup h c = None \<Longrightarrow> ?res = Inr False"
    using setup_body_no_config[OF _ q, of h lib env] by (simp add: res)
  have nonmock: "(\<not> truthy (get_config_value d ''path'' PNone) \<longrightarrow> ?res = Inr False) \<and>
      (\<forall>mp. get_config_value d ''path'' PNone = PStr mp \<and> mp \<noteq> [] \<longrightarrow>
         (\<not> path_exists env mp \<and>
          (path_isabs env mp \<or>
           (\<not> path_exists env (path_join env (project_root env) mp) \<and>
            \<not> path_exists env hardcoded_model_path))
            \<longrightarrow> ?res = Inr False) \<and>
         (path_exists env mp \<and> Model lib mp = None \<longrightarrow> ?res = Inr False) \<and>
         (\<forall>m. path_exists env mp \<and> Model lib mp = Some m \<and>
              (KaldiRecognizer lib m (get_config_value d ''sample_rate'' (PInt 16000)) = None \<or>
               (\<exists>r. KaldiRecognizer lib m (get_config_value d ''sample_rate'' (PInt 16000)) = Some r \<and>
                    SetWords lib r (get_config_value d ''use_words'' (PBool True)) = None))
            \<longrightarrow> ?res = Inr False)) \<and>
      (?res = Inr True
         \<longrightarrow> (\<exists>np m r r'. path_exists env np \<and> Model lib np = Some m \<and>
               KaldiRecognizer lib m (sample_rate (snd (snd (initialize lib env h p c)))) = Some r \<and>
               SetWords lib r (use_words (snd (snd (initialize lib env h p c)))) = Some r' \<and>
               model (snd (snd (initialize lib env h p c))) = Some m \<and>
               recognizer (snd (snd (initialize lib env h p c))) = Some r'))"
    if d: "heap_lookup h c = Some d"
      and nm: "\<not> truthy (get_config_value d ''mock_mode'' (PBool False))" for d
  proof (intro conjI allI impI)
    assume "\<not> truthy (get_config_value d ''path'' PNone)"
    from setup_body_no_path[OF q d nm this, of lib env] show "?res = Inr False"
      by (simp add: res)
  next
    fix mp
    assume a: "get_config_value d ''path'' PNone = PStr mp \<and> mp \<noteq> []"
      and b: "\<not> path_exists env mp \<and>
          (path_isabs env mp \<or>
           (\<not> path_exists env (path_join env (project_root env) mp) \<and>
            \<not> path_exists env hardcoded_model_path))"
    from a b setup_body_nonmock_unresolved[OF q d nm, of mp env lib]
    show "?res = Inr False" by (simp add: res)
  next
    fix mp
    assume a: "get_config_value d ''path'' PNone = PStr mp \<and> mp \<noteq> []"
      and b: "path_exists env mp \<and> Model lib mp = None"
    from a b setup_body_nonmock_existing_path[OF q d nm, of mp env lib]
    show "?res = Inr False" by (simp add: res load_engine_model_error)
  next
    fix mp m
    assume a: "get_config_value d ''path'' PNone = PStr mp \<and> mp \<noteq> []"
      and b: "path_exists env mp \<and> Model lib mp = Some m \<and>
              (KaldiRecognizer lib m (get_config_value d ''sample_rate'' (PInt 16000)) = None \<or>
               (\<exists>r. KaldiRecognizer lib m (get_config_value d ''sample_rate'' (PInt 16000)) = Some r \<and>
                    SetWords lib r (get_config_value d ''use_words'' (PBool True)) = None))"
    let ?p1 = "?q\<lparr> sample_rate := get_config_value d ''sample_rate'' (PInt 16000),
                    use_words := get_config_value d ''use_words'' (PBool True) \<rparr>"
    from b have "fst (load_engine lib mp False ?p1) = Inr False"
      by (intro load_engine_recognizer_error[of lib mp m]) auto
    with a b setup_body_nonmock_existing_path[OF q d nm, of mp env lib]
    show "?res = Inr False" by (simp add: res)
  next
    assume ok: "?res = Inr True"
    then have "fst (plugin_setup_body lib env h ?q) = Inr True" by (simp add: res)
    from setup_body_success_nonmock[OF this q d nm]
    show "\<exists>np m r r'. path_exists env np \<and> Model lib np = Some m \<and>
               KaldiRecognizer lib m (sample_rate (snd (snd (initialize lib env h p c)))) = Some r \<and>
               SetWords lib r (use_words (snd (snd (initialize lib env h p c)))) = Some r' \<and>
               model (snd (snd (initialize lib env h p c))) = Some m \<and>
               recognizer (snd (snd (initialize lib env h p c))) = Some r'"
      by (simp add: initialize_fields)
  qed
  have mock: "(\<forall>m r r'. \<not> truthy (get_config_value d ''path'' PNone) \<and>
           Model lib (temp_model_path env) = Some m \<and>
           KaldiRecognizer lib m (get_config_value d ''sample_rate'' (PInt 16000)) = Some r \<and>
           SetWords lib r (get_config_value d ''use_words'' (PBool True)) = Some r'
         \<longrightarrow> ?res = Inr True) \<and>
      (\<forall>mp m r r'. get_config_value d ''path'' PNone = PStr mp \<and> mp \<noteq> [] \<and>
           Model lib mp = None \<and> Model lib ''mock_model_path'' = Some m \<and>
           KaldiRecognizer lib m (get_config_value d ''sample_rate'' (PInt 16000)) = Some r \<and>
           SetWords lib r (get_config_value d ''use_words'' (PBool True)) = Some r'
         \<longrightarrow> ?res = Inr True) \<and>
      (\<forall>mp m r. get_config_value d ''path'' PNone = PStr mp \<and> mp \<noteq> [] \<and>
           Model lib mp = Some m \<and>
           KaldiRecognizer lib m (get_config_value d ''sample_rate'' (PInt 16000)) = Some r \<and>
           SetWords lib r (get_config_value d ''use_words'' (PBool True)) = None
         \<longrightarrow> ?res = Inr True)"
    if d: "heap_lookup h c = Some d"
      and m: "truthy (get_config_value d ''mock_mode'' (PBool False))" for d
  proof (intro conjI allI impI)
    fix m r r'
    assume a: "\<not> truthy (get_config_value d ''path'' PNone) \<and>
           Model lib (temp_model_path env) = Some m \<and>
           KaldiRecognizer lib m (get_config_value d ''sample_rate'' (PInt 16000)) = Some r \<and>
           SetWords lib r (get_config_value d ''use_words'' (PBool True)) = Some r'"
    then have np: "\<not> truthy (get_config_value d ''path'' PNone)" by simp
    from a show "?res = Inr True"
      by (simp add: res setup_body_mock_no_path[OF q d m np, of lib env]
            load_engine_ok[of lib _ m _ r r'])
  next
    fix mp m r r'
    assume a: "get_config_value d ''path'' PNone = PStr mp \<and> mp \<noteq> [] \<and>
           Model lib mp = None \<and> Model lib ''mock_model_path'' = Some m \<and>
           KaldiRecognizer lib m (get_config_value d ''sample_rate'' (PInt 16000)) = Some r \<and>
           SetWords lib r (get_config_value d ''use_words'' (PBool True)) = Some r'"
    then have pa: "get_config_value d ''path'' PNone = PStr mp" "mp \<noteq> []" by simp_all
    from a show "?res = Inr True"
      by (simp add: res setup_body_mock_path[OF q d m pa, of lib env]
            load_engine_placeholder_model[of lib mp m _ r r'])
  next
    fix mp m r
    assume a: "get_config_value d ''path'' PNone = PStr mp \<and> mp \<noteq> [] \<and>
           Model lib mp = Some m \<and>
           KaldiRecognizer lib m (get_config_value d ''sample_rate'' (PInt 16000)) = Some r \<and>
           SetWords lib r (get_config_value d ''use_words'' (PBool True)) = None"
    then have pa: "get_config_value d ''path'' PNone = PStr mp" "mp \<noteq> []" by simp_all
    from a show "?res = Inr True"
      by (simp add: res setup_body_mock_path[OF q d m pa, of lib env]
            load_engine_second_recognizer[of lib mp m _ r])
  qed
  show ?thesis
  proof (intro conjI)
    show "?res = Inr (fst (plugin_setup_body lib env h ?q) = Inr True)" by (rule res)
  next
    show "heap_lookup h c = None \<longrightarrow> ?res = Inr False" using none by (intro impI)
  next
    show "\<forall>d. heap_lookup h c = Some d \<and>
        \<not> truthy (get_config_value d ''mock_mode'' (PBool False)) \<longrightarrow>
      (\<not> truthy (get_config_value d ''path'' PNone) \<longrightarrow> ?res = Inr False) \<and>
      (\<forall>mp. get_config_value d ''path'' PNone = PStr mp \<and> mp \<noteq> [] \<longrightarrow>
         (\<not> path_exists env mp \<and>
          (path_isabs env mp \<or>
           (\<not> path_exists env (path_join env (project_root env) mp) \<and>
            \<not> path_exists env hardcoded_model_path))
            \<longrightarrow> ?res = Inr False) \<and>
         (path_exists env mp \<and> Model lib mp = None \<longrightarrow> ?res = Inr False) \<and>
         (\<forall>m. path_exists env mp \<and> Model lib mp = Some m \<and>
              (KaldiRecognizer lib m (get_config_value d ''sample_rate'' (PInt 16000)) = None \<or>
               (\<exists>r. KaldiRecognizer lib m (get_config_value d ''sample_rate'' (PInt 16000)) = Some r \<and>
                    SetWords lib r (get_config_value d ''use_words'' (PBool True)) = None))
            \<longrightarrow> ?res = Inr False)) \<and>
      (?res = Inr True
         \<longrightarrow> (\<exists>np m r r'. path_exists env np \<and> Model lib np = Some m \<and>
               KaldiRecognizer lib m (sample_rate (snd (snd (initialize lib env h p c)))) = Some r \<and>
               SetWords lib r (use_words (snd (snd (initialize lib env h p c)))) = Some r' \<and>
               model (snd (snd (initialize lib env h p c))) = Some m \<and>
               recognizer (snd (snd (initialize lib env h p c))) = Some r'))"
    proof (intro allI impI)
      fix d
      assume "heap_lookup h c = Some d \<and>
        \<not> truthy (get_config_value d ''mock_mode'' (PBool False))"
      then have "heap_lookup h c = Some d"
        and "\<not> truthy (get_config_value d ''mock_mode'' (PBool False))" by simp_all
      then show "(\<not> truthy (get_config_value d ''path'' PNone) \<longrightarrow> ?res = Inr False) \<and>
      (\<forall>mp. get_config_value d ''path'' PNone = PStr mp \<and> mp \<noteq> [] \<longrightarrow>
         (\<not> path_exists env mp \<and>
          (path_isabs env mp \<or>
           (\<not> path_exists env (path_join env (project_root env) mp) \<and>
            \<not> path_exists env hardcoded_model_path))
            \<longrightarrow> ?res = Inr False) \<and>
         (path_exists env mp \<and> Model lib mp = None \<longrightarrow> ?res = Inr False) \<and>
         (\<forall>m. path_exists env mp \<and> Model lib mp = Some m \<and>
              (KaldiRecognizer lib m (get_config_value d ''sample_rate'' (PInt 16000)) = None \<or>
               (\<exists>r. KaldiRecognizer lib m (get_config_value d ''sample_rate'' (PInt 16000)) = Some r \<and>
                    SetWords lib r (get_config_value d ''use_words'' (PBool True)) = None))
            \<longrightarrow> ?res = Inr False)) \<and>
      (?res = Inr True
         \<longrightarrow> (\<exists>np m r r'. path_exists env np \<and> Model lib np = Some m \<and>
               KaldiRecognizer lib m (sample_rate (snd (snd (initialize lib env h p c)))) = Some r \<and>
               SetWords lib r (use_words (snd (snd (initialize lib env h p c)))) = Some r' \<and>
               model (snd (snd (initialize lib env h p c))) = Some m \<and>
               recognizer (snd (snd (initialize lib env h p c))) = Some r'))"
        by (rule nonmock)
    qed
  next
    show "\<forall>d. heap_lookup h c = Some d \<and>
        truthy (get_config_value d ''mock_mode'' (PBool False)) \<longrightarrow>
      (\<forall>m r r'. \<not> truthy (get_config_value d ''path'' PNone) \<and>
           Model lib (temp_model_path env) = Some m \<and>
           KaldiRecognizer lib m (get_config_value d ''sample_rate'' (PInt 16000)) = Some r \<and>
           SetWords lib r (get_config_value d ''use_words'' (PBool True)) = Some r'
         \<longrightarrow> ?res = Inr True) \<and>
      (\<forall>mp m r r'. get_config_value d ''path'' PNone = PStr mp \<and> mp \<noteq> [] \<and>
           Model lib mp = None \<and> Model lib ''mock_model_path'' = Some m \<and>
           KaldiRecognizer lib m (get_config_value d ''sample_rate'' (PInt 16000)) = Some r \<and>
           SetWords lib r (get_config_value d ''use_words'' (PBool True)) = Some r'
         \<longrightarrow> ?res = Inr True) \<and>
      (\<forall>mp m r. get_config_value d ''path'' PNone = PStr mp \<and> mp \<noteq> [] \<and>
           Model lib mp = Some m \<and>
           KaldiRecognizer lib m (get_config_value d ''sample_rate'' (PInt 16000)) = Some r \<and>
           SetWords lib r (get_config_value d ''use_words'' (PBool True)) = None
         \<longrightarrow> ?res = Inr True)"
    proof (intro allI impI)
      fix d
      assume "heap_lookup h c = Some d \<and>
        truthy (get_config_value d ''mock_mode'' (PBool False))"
      then have "heap_lookup h c = Some d"
        and "truthy (get_config_value d ''mock_mode'' (PBool False))" by simp_all
      then show "(\<forall>m r r'. \<not> truthy (get_config_value d ''path'' PNone) \<and>
           Model lib (temp_model_path env) = Some m \<and>
           KaldiRecognizer lib m (get_config_value d ''sample_rate'' (PInt 16000)) = Some r \<and>
           SetWords lib r (get_config_value d ''use_words'' (PBool True)) = Some r'
         \<longrightarrow> ?res = Inr True) \<and>
      (\<forall>mp m r r'. get_config_value d ''path'' PNone = PStr mp \<and> mp \<noteq> [] \<and>
           Model lib mp = None \<and> Model lib ''mock_model_path'' = Some m \<and>
           KaldiRecognizer lib m (get_config_value d ''sample_rate'' (PInt 16000)) = Some r \<and>
           SetWords lib r (get_config_value d ''use_words'' (PBool True)) = Some r'
         \<longrightarrow> ?res = Inr True) \<and>
      (\<forall>mp m r. get_config_value d ''path'' PNone = PStr mp \<and> mp \<noteq> [] \<and>
           Model lib mp = Some m \<and>
           KaldiRecognizer lib m (get_config_value d ''sample_rate'' (PInt 16000)) = Some r \<and>
           SetWords lib r (get_config_value d ''use_words'' (PBool True)) = None
         \<longrightarrow> ?res = Inr True)"
        by (rule mock)
    qed
  qed
qed

theorem initialize_returns_bool_witness:
  "fst (initialize broken_lib vosk_model_env [[(''path'', PStr ''/m'')]] new_plugin 0) = Inr False \<and>
   fst (initialize vosk_lib vosk_model_env [[(''path'', PStr ''/m'')]] new_plugin 0) = Inr True \<and>
   fst (initialize vosk_lib vosk_model_env [[(''sample_rate'', PInt 8000)]] new_plugin 0) = Inr False \<and>
   fst (initialize vosk_lib vosk_model_env [] new_plugin 0) = Inr False \<and>
   fst (initialize fallback_lib vosk_model_env [mock_model_config] new_plugin 0) = Inr True"
proof -
  note defs = plugin_setup_body_def vosk_model_env_def posix_defs
        new_plugin_def heap_lookup_def get_config_value_def dict_get_def dict_set_def
        resolve_model_path_def load_engine_def load_vosk_model_def create_vosk_recognizer_def
        vosk_lib_def broken_lib_def fallback_lib_def mock_model_config_def Let_def
  have a: "fst (initialize broken_lib vosk_model_env [[(''path'', PStr ''/m'')]] new_plugin 0) = Inr False"
    using initialize_returns_bool[of broken_lib vosk_model_env "[[(''path'', PStr ''/m'')]]" new_plugin 0,
            THEN conjunct1]
    by (simp add: defs)
  have b: "fst (initialize vosk_lib vosk_model_env [[(''path'', PStr ''/m'')]] new_plugin 0) = Inr True"
    using initialize_returns_bool[of vosk_lib vosk_model_env "[[(''path'', PStr ''/m'')]]" new_plugin 0,
            THEN conjunct1]
    by (simp add: defs)
  have c: "fst (initialize vosk_lib vosk_model_env [[(''sample_rate'', PInt 8000)]] new_plugin 0) = Inr False"
    using initialize_returns_bool[of vosk_lib vosk_model_env "[[(''sample_rate'', PInt 8000)]]" new_plugin 0,
            THEN conjunct1]
    by (simp add: defs)
  have d: "fst (initialize vosk_lib vosk_model_env [] new_plugin 0) = Inr False"
    using initialize_returns_bool[of vosk_lib vosk_model_env "[]" new_plugin 0, THEN conjunct1]
    by (simp add: defs)
  have e: "fst (initialize fallback_lib vosk_model_env [mock_model_config] new_plugin 0) = Inr True"
    using initialize_returns_bool[of fallback_lib vosk_model_env "[mock_model_config]" new_plugin 0,
            THEN conjunct1]
    by (simp add: defs)
  from a b c d e show ?thesis by simp
qed

lemma teardown_result:
  "teardown p = (Inr True, p\<lparr> model := None, recognizer := None \<rparr>)"
  by (simp add: teardown_def except_Exception_def)

text \<open>
  C9: for every plugin with a retained configuration mapping and every model
  path, if \<open>load_model(model_path)\<close> returns False then the mapping retained
  afterwards has exactly the value the retained mapping had before the call.
\<close>

theorem load_model_restores_config:
  assumes cfg: "plugin_config p = Some c" "heap_lookup h c = Some d"
    and failed: "load_model lib env h p new_path = (Inr False, h', p')"
  shows "\<exists>c'. plugin_config p' = Some c' \<and> heap_lookup h' c' = Some d"
proof -
  let ?h2 = "(h @ [d])[c := dict_set d ''path'' (PStr new_path)]"
  let ?p1 = "p\<lparr> model := None, recognizer := None \<rparr>"
  from cfg have c: "c < length h" by (simp add: heap_lookup_def split: if_splits)
  obtain r h3 p2 where s: "plugin_setup lib env ?h2 ?p1 = (r, h3, p2)"
    by (cases "plugin_setup lib env ?h2 ?p1") auto
  obtain b where b: "r = Inr b" using setup_never_raises[of lib env ?h2 ?p1] s by auto
  have len: "length h3 = Suc (length h)"
    using setup_heap_length[of lib env ?h2 ?p1] s by simp
  have "plugin_config ?p1 \<noteq> Some (length h)" using cfg c by simp
  from setup_heap_other[OF this, of lib env ?h2] s c
  have cell: "h3 ! length h = d" by (simp add: nth_append)
  from failed cfg s b have "\<not> b" and "h' = h3" and "p' = p2\<lparr> plugin_config := Some (length h) \<rparr>"
    by (auto simp: load_model_def load_model_body_def heap_copy_def teardown_result
         except_Exception_def split: if_splits)
  with len cell show ?thesis by (simp add: heap_lookup_def)
qed

theorem load_model_restores_config_witness:
  "plugin_config (new_plugin\<lparr> plugin_config := Some 0 \<rparr>) = Some 0 \<and>
   heap_lookup [relative_config] 0 = Some relative_config \<and>
   load_model vosk_lib guess_env [relative_config] (new_plugin\<lparr> plugin_config := Some 0 \<rparr>) ''/nowhere''
     = (Inr False, [[(''path'', PStr ''/nowhere'')], relative_config],
        new_plugin\<lparr> plugin_config := Some 1 \<rparr>) \<and>
   (\<exists>c'. plugin_config (new_plugin\<lparr> plugin_config := Some 1 \<rparr>) = Some c' \<and>
         heap_lookup [[(''path'', PStr ''/nowhere'')], relative_config] c' = Some relative_config)"
proof -
  have c1: "plugin_config (new_plugin\<lparr> plugin_config := Some 0 \<rparr>) = Some 0" by simp
  have c2: "heap_lookup [relative_config] 0 = Some relative_config"
    by (simp add: heap_lookup_def)
  have run: "load_model vosk_lib guess_env [relative_config]
        (new_plugin\<lparr> plugin_config := Some 0 \<rparr>) ''/nowhere''
     = (Inr False, [[(''path'', PStr ''/nowhere'')], relative_config],
        new_plugin\<lparr> plugin_config := Some 1 \<rparr>)"
    by (simp add: load_model_def load_model_body_def heap_copy_def teardown_def
          plugin_setup_def plugin_setup_body_def
          except_Exception_def guess_env_def posix_defs posix_join_def posix_isabs_def
          new_plugin_def heap_lookup_def get_config_value_def dict_get_def dict_set_def
          resolve_model_path_def relative_config_def Let_def)
  from load_model_restores_config[OF c1 c2 run] c1 c2 run show ?thesis by simp
qed

section \<open>\<open>transcribe_file\<close>\<close>

lemma frames_of_Nil: "take n bytes = [] \<Longrightarrow> frames_of n bytes = []"
  by (subst frames_of.simps) (simp add: Let_def)

lemma frames_of_Cons:
  "take n bytes \<noteq> [] \<Longrightarrow> frames_of n bytes = take n bytes # frames_of n (drop n bytes)"
  by (subst frames_of.simps) (simp add: Let_def)




text \<open>A sequence one byte longer than a frame is read as a full frame and a rest.\<close>

lemma frames_of_two:
  "frames_of 8000 (replicate 8000 0 @ [1]) = [replicate 8000 0, [1]]"
  by (simp add: frames_of_Cons frames_of_Nil)

lemma readframes_fst:
  "fst (readframes wav n) = take (n * nchannels wav * sampwidth wav) (wave_data wav)"
  by (simp add: readframes_def Let_def)

lemma readframes_snd:
  "snd (readframes wav n) = wav\<lparr> wave_data := drop (n * nchannels wav * sampwidth wav) (wave_data wav) \<rparr>"
  by (simp add: readframes_def Let_def)

lemma transcribe_loop_stop:
  assumes "fst (readframes wav 4000) = []"
  shows "transcribe_loop lib st wav reads = (st, Suc reads)"
proof -
  from assms have z: "length (fst (readframes wav 4000)) = 0" by simp
  show ?thesis by (subst transcribe_loop.simps) (rule if_P[OF z])
qed

lemma transcribe_loop_step:
  assumes "fst (readframes wav 4000) \<noteq> []"
  shows "transcribe_loop lib st wav reads =
       transcribe_loop lib (accept_chunk lib st (fst (readframes wav 4000)))
         (snd (readframes wav 4000)) (Suc reads)"
proof -
  from assms have nz: "\<not> length (fst (readframes wav 4000)) = 0" by simp
  show ?thesis by (subst transcribe_loop.simps) (rule if_not_P[OF nz])
qed

lemma transcribe_loop_frames:
  "transcribe_loop lib st wav reads =
     (foldl (accept_chunk lib) st (frames_of (4000 * nchannels wav * sampwidth wav) (wave_data wav)),
      Suc (reads + length (frames_of (4000 * nchannels wav * sampwidth wav) (wave_data wav))))"
proof (induction lib st wav reads rule: transcribe_loop.induct)
  case (1 lib st wav reads)
  let ?n = "4000 * nchannels wav * sampwidth wav"
  show ?case
  proof (cases "fst (readframes wav 4000) = []")
    case True
    then have "take ?n (wave_data wav) = []" unfolding readframes_fst .
    then have "frames_of ?n (wave_data wav) = []" by (rule frames_of_Nil)
    with transcribe_loop_stop[OF True] show ?thesis by simp
  next
    case False
    then have ne: "take ?n (wave_data wav) \<noteq> []" unfolding readframes_fst .
    from False have "length (fst (readframes wav 4000)) \<noteq> 0" by simp
    from 1[OF this] have ih: "transcribe_loop lib (accept_chunk lib st (fst (readframes wav 4000)))
           (snd (readframes wav 4000)) (Suc reads) =
        (foldl (accept_chunk lib) (accept_chunk lib st (take ?n (wave_data wav)))
           (frames_of ?n (drop ?n (wave_data wav))),
         Suc (Suc reads + length (frames_of ?n (drop ?n (wave_data wav)))))"
      by (simp add: readframes_fst readframes_snd)
    show ?thesis
      unfolding transcribe_loop_step[OF False] ih frames_of_Cons[OF ne] by simp
  qed
qed

text \<open>
  C3: for every path given to \<open>transcribe_file\<close>: if the path does not exist
  the call returns None, and with a recogniser in place the failure it reports
  is FileNotFound; if the file opens as a wave file that is not single-channel,
  16-bit and uncompressed (or does not open as a wave file at all) the call
  returns None, and the failure reported for a wave file of another format is
  UnsupportedFormat. In each case \<open>readframes\<close> has not been called and the
  plugin, its recogniser included, is as before.
\<close>

theorem transcribe_file_rejects:
  "(\<not> path_exists env file_path \<longrightarrow>
      fst (transcribe_file lib env p file_path) = None \<and>
      fst (snd (transcribe_file_run lib env p file_path)) = 0 \<and>
      snd (transcribe_file lib env p file_path) = p \<and>
      (recognizer p \<noteq> None \<longrightarrow> fst (transcribe_file_run lib env p file_path) = Inl FileNotFound)) \<and>
   (\<forall>wav. wave_open env file_path = Some wav \<and>
          (nchannels wav \<noteq> 1 \<or> sampwidth wav \<noteq> 2 \<or> comptype wav \<noteq> ''NONE'') \<longrightarrow>
      fst (transcribe_file lib env p file_path) = None \<and>
      fst (snd (transcribe_file_run lib env p file_path)) = 0 \<and>
      snd (transcribe_file lib env p file_path) = p \<and>
      (recognizer p \<noteq> None \<and> path_exists env file_path
         \<longrightarrow> fst (transcribe_file_run lib env p file_path) = Inl UnsupportedFormat)) \<and>
   (wave_open env file_path = None \<longrightarrow>
      fst (transcribe_file lib env p file_path) = None \<and>
      fst (snd (transcribe_file_run lib env p file_path)) = 0 \<and>
      snd (transcribe_file lib env p file_path) = p)"
  by (auto simp: transcribe_file_def transcribe_file_run_def split: option.splits)

theorem transcribe_file_rejects_witness:
  "\<not> path_exists audio_env ''/missing.wav'' \<and>
   fst (transcribe_file vosk_lib audio_env ready_plugin ''/missing.wav'') = None \<and>
   fst (transcribe_file_run vosk_lib audio_env ready_plugin ''/missing.wav'') = Inl FileNotFound \<and>
   wave_open audio_env ''/s.wav'' = Some stereo_wave \<and> nchannels stereo_wave \<noteq> 1 \<and>
   fst (transcribe_file vosk_lib audio_env ready_plugin ''/s.wav'') = None \<and>
   fst (transcribe_file_run vosk_lib audio_env ready_plugin ''/s.wav'') = Inl UnsupportedFormat \<and>
   fst (snd (transcribe_file_run vosk_lib audio_env ready_plugin ''/s.wav'')) = 0"
  using transcribe_file_rejects[of audio_env "''/missing.wav''" vosk_lib ready_plugin]
    transcribe_file_rejects[of audio_env "''/s.wav''" vosk_lib ready_plugin]
  by (simp add: audio_env_def posix_defs stereo_wave_def ready_plugin_def new_plugin_def)

lemma run_success_path:
  assumes "recognizer p = Some r" "path_exists env fp" "wave_open env fp = Some wav"
    and "nchannels wav = 1" "sampwidth wav = 2" "comptype wav = ''NONE''"
  shows "transcribe_file_run lib env p fp =
     (let st = foldl (accept_chunk lib) (Reset lib r, [])
                 (frames_of (4000 * nchannels wav * sampwidth wav) (wave_data wav));
          fin = FinalResult lib (fst st);
          transcript = join_space (append_text (snd st) (fst fin));
          p' = p\<lparr> recognizer := Some (snd fin) \<rparr>;
          reads = Suc (length (frames_of (4000 * nchannels wav * sampwidth wav) (wave_data wav)))
      in case format_transcript env transcript of
           Inl e \<Rightarrow> (Inl (Raised e), reads, p')
         | Inr t \<Rightarrow> (Inr (if t \<noteq> [] then Some t else None), reads, p'))"
  using assms
  by (simp add: transcribe_file_run_def transcribe_loop_frames split_beta Let_def
        split: sum.splits)








lemma accept_chunk_reset:
  assumes "\<forall>r d. Reset lib (snd (AcceptWaveform lib r d)) = Reset lib r"
      and "\<forall>r. Reset lib (snd (Result lib r)) = Reset lib r"
  shows "Reset lib (fst (accept_chunk lib st d)) = Reset lib (fst st)"
proof (cases st)
  case (Pair r results)
  from assms(1) have a: "Reset lib (snd (AcceptWaveform lib r d)) = Reset lib r" by blast
  from assms(2) have b: "Reset lib (snd (Result lib (snd (AcceptWaveform lib r d))))
        = Reset lib (snd (AcceptWaveform lib r d))" by blast
  show ?thesis using Pair a b by (simp add: accept_chunk_def split_beta)
qed

lemma foldl_accept_chunk_reset:
  assumes "\<forall>r d. Reset lib (snd (AcceptWaveform lib r d)) = Reset lib r"
      and "\<forall>r. Reset lib (snd (Result lib r)) = Reset lib r"
  shows "Reset lib (fst (foldl (accept_chunk lib) st cs)) = Reset lib (fst st)"
  by (induction cs arbitrary: st) (simp_all add: accept_chunk_reset[OF assms])

lemma transcribe_file_rejected_state:
  assumes "\<not> (\<exists>r wav. recognizer p = Some r \<and> path_exists env fp \<and> wave_open env fp = Some wav \<and>
           nchannels wav = 1 \<and> sampwidth wav = 2 \<and> comptype wav = ''NONE'')"
  shows "snd (transcribe_file lib env p fp) = p"
  using assms
  by (auto simp: transcribe_file_def transcribe_file_run_def split: option.splits)

lemma transcribe_file_cong:
  assumes "recognizer p = Some r" "recognizer q = Some r'" "Reset lib r = Reset lib r'"
  shows "fst (transcribe_file lib env p fp) = fst (transcribe_file lib env q fp)"
  by (simp add: transcribe_file_def transcribe_file_run_def assms split_beta Let_def
        split: option.splits sum.splits)

text \<open>
  C6: for every file and every plugin, on a recogniser library whose \<open>Reset\<close>
  forgets what was accepted and reported before it (the four equations), a
  second \<open>transcribe_file\<close> call on the same file, made on the plugin as the
  first call left it and with no \<open>reset()\<close> in between, returns what the first
  call returned: each call resets the recogniser before it streams and collects
  its results in a list of its own. The library of the repository satisfies the
  equations.
\<close>

theorem transcribe_file_twice:
  assumes accept: "\<forall>r d. Reset lib (snd (AcceptWaveform lib r d)) = Reset lib r"
      and result: "\<forall>r. Reset lib (snd (Result lib r)) = Reset lib r"
      and final: "\<forall>r. Reset lib (snd (FinalResult lib r)) = Reset lib r"
      and idem: "\<forall>r. Reset lib (Reset lib r) = Reset lib r"
  shows "fst (transcribe_file lib env (snd (transcribe_file lib env p file_path)) file_path)
           = fst (transcribe_file lib env p file_path)"
proof (cases "\<exists>r wav. recognizer p = Some r \<and> path_exists env file_path \<and>
           wave_open env file_path = Some wav \<and>
           nchannels wav = 1 \<and> sampwidth wav = 2 \<and> comptype wav = ''NONE''")
  case False
  then show ?thesis by (simp add: transcribe_file_rejected_state)
next
  case True
  then obtain r wav where
    ok: "recognizer p = Some r" "path_exists env file_path" "wave_open env file_path = Some wav"
        "nchannels wav = 1" "sampwidth wav = 2" "comptype wav = ''NONE''"
    by blast
  let ?fs = "frames_of (4000 * nchannels wav * sampwidth wav) (wave_data wav)"
  let ?st = "foldl (accept_chunk lib) (Reset lib r, []) ?fs"
  let ?r2 = "snd (FinalResult lib (fst ?st))"
  let ?p' = "p\<lparr> recognizer := Some ?r2 \<rparr>"
  have p': "snd (transcribe_file lib env p file_path) = ?p'"
    by (simp add: transcribe_file_def run_success_path[OF ok] Let_def split: sum.splits prod.splits)
  have "Reset lib ?r2 = Reset lib (fst ?st)" using final by blast
  also have "\<dots> = Reset lib (Reset lib r)"
    by (simp add: foldl_accept_chunk_reset[OF accept result])
  also have "\<dots> = Reset lib r" using idem by blast
  finally have same: "Reset lib ?r2 = Reset lib r" .
  have ok': "recognizer ?p' = Some ?r2" by simp
  show ?thesis
    unfolding p' by (rule transcribe_file_cong[OF ok' ok(1) same])
qed

theorem transcribe_file_twice_witness:
  "(\<forall>r d. Reset vosk_lib (snd (AcceptWaveform vosk_lib r d)) = Reset vosk_lib r) \<and>
   (\<forall>r. Reset vosk_lib (snd (Result vosk_lib r)) = Reset vosk_lib r) \<and>
   (\<forall>r. Reset vosk_lib (snd (FinalResult vosk_lib r)) = Reset vosk_lib r) \<and>
   (\<forall>r. Reset vosk_lib (Reset vosk_lib r) = Reset vosk_lib r) \<and>
   (\<forall>env p file_path.
      fst (transcribe_file vosk_lib env (snd (transcribe_file vosk_lib env p file_path)) file_path)
        = fst (transcribe_file vosk_lib env p file_path))"
proof -
  have a: "\<forall>r d. Reset vosk_lib (snd (AcceptWaveform vosk_lib r d)) = Reset vosk_lib r"
    by (simp add: vosk_lib_def)
  have b: "\<forall>r. Reset vosk_lib (snd (Result vosk_lib r)) = Reset vosk_lib r"
    by (simp add: vosk_lib_def)
  have c: "\<forall>r. Reset vosk_lib (snd (FinalResult vosk_lib r)) = Reset vosk_lib r"
    by (simp add: vosk_lib_def)
  have d: "\<forall>r. Reset vosk_lib (Reset vosk_lib r) = Reset vosk_lib r"
    by (simp add: vosk_lib_def)
  from transcribe_file_twice[OF a b c d] a b c d show ?thesis by blast
qed

end
